theory Spec2Isabelle
  imports Main "HOL-Library.AList"
begin

section \<open>Hazel's OpenGL shader and vertex array, as HOL functions\<close>

text \<open>
  The development follows \<^verbatim>\<open>Platform/OpenGL/OpenGLShader.cpp\<close> and
  \<^verbatim>\<open>Platform/OpenGL/OpenGLVertexArray.cpp\<close>. Strings are character lists, positions
  and counts of \<^verbatim>\<open>std::string\<close> are natural numbers below \<open>2 ^ 64\<close> with the
  wrap-around of \<^verbatim>\<open>size_t\<close> written out, a failed assertion and a thrown exception are
  error values, and the native graphics context is a record that keeps the calls made.
\<close>

subsection \<open>Errors\<close>

text \<open>
  Modelled from the spec: \<^verbatim>\<open>HZ_CORE_ASSERT\<close> is a macro of \<^verbatim>\<open>hzpch.h\<close>, which is not
  among the sources. The spec calls a failed assertion a fatal precondition violation
  that halts the pipeline, so a failed assertion ends the run with \<open>AssertionFailed\<close>
  and the assertion's message. \<open>OutOfRange\<close> is \<^verbatim>\<open>std::out_of_range\<close>, thrown by
  \<^verbatim>\<open>std::string::substr\<close> and caught nowhere in the sources.
\<close>

datatype error = AssertionFailed string | OutOfRange

subsection \<open>\<^verbatim>\<open>size_t\<close> and \<^verbatim>\<open>std::string\<close>\<close>

definition npos :: nat where
  "npos = 2 ^ 64 - 1"

definition size_t_add :: "nat \<Rightarrow> nat \<Rightarrow> nat" where
  "size_t_add a b = (a + b) mod 2 ^ 64"

definition size_t_sub :: "nat \<Rightarrow> nat \<Rightarrow> nat" where
  "size_t_sub a b = (a + 2 ^ 64 - b mod 2 ^ 64) mod 2 ^ 64"

definition starts_with :: "string \<Rightarrow> string \<Rightarrow> bool" where
  "starts_with tok cs = (take (length tok) cs = tok)"

text \<open>The index of the first suffix of the text that satisfies \<open>P\<close>.\<close>

primrec first_match :: "(string \<Rightarrow> bool) \<Rightarrow> string \<Rightarrow> nat option" where
  "first_match P [] = (if P [] then Some 0 else None)"
| "first_match P (c # cs) =
     (if P (c # cs) then Some 0 else map_option Suc (first_match P cs))"

text \<open>The index of the last character of the text that satisfies \<open>P\<close>.\<close>

primrec last_index :: "(char \<Rightarrow> bool) \<Rightarrow> string \<Rightarrow> nat option" where
  "last_index P [] = None"
| "last_index P (c # cs) =
     (case last_index P cs of
        Some i \<Rightarrow> Some (Suc i)
      | None \<Rightarrow> if P c then Some 0 else None)"

definition str_find :: "string \<Rightarrow> string \<Rightarrow> nat \<Rightarrow> nat" where
  \<comment> \<open>\<^verbatim>\<open>s.find(tok, pos)\<close>\<close>
  "str_find s tok pos =
     (if length s < pos then npos
      else case first_match (starts_with tok) (drop pos s) of
             None \<Rightarrow> npos
           | Some i \<Rightarrow> pos + i)"

definition find_first_of :: "string \<Rightarrow> string \<Rightarrow> nat \<Rightarrow> nat" where
  \<comment> \<open>\<^verbatim>\<open>s.find_first_of(chars, pos)\<close>\<close>
  "find_first_of s chars pos =
     (if length s < pos then npos
      else case first_match (\<lambda>cs. cs \<noteq> [] \<and> hd cs \<in> set chars) (drop pos s) of
             None \<Rightarrow> npos
           | Some i \<Rightarrow> pos + i)"

definition find_first_not_of :: "string \<Rightarrow> string \<Rightarrow> nat \<Rightarrow> nat" where
  \<comment> \<open>\<^verbatim>\<open>s.find_first_not_of(chars, pos)\<close>\<close>
  "find_first_not_of s chars pos =
     (if length s < pos then npos
      else case first_match (\<lambda>cs. cs \<noteq> [] \<and> hd cs \<notin> set chars) (drop pos s) of
             None \<Rightarrow> npos
           | Some i \<Rightarrow> pos + i)"

definition find_last_of :: "string \<Rightarrow> string \<Rightarrow> nat" where
  \<comment> \<open>\<^verbatim>\<open>s.find_last_of(chars)\<close>\<close>
  "find_last_of s chars =
     (case last_index (\<lambda>c. c \<in> set chars) s of None \<Rightarrow> npos | Some i \<Rightarrow> i)"

definition rfind :: "string \<Rightarrow> char \<Rightarrow> nat" where
  \<comment> \<open>\<^verbatim>\<open>s.rfind(ch)\<close>\<close>
  "rfind s ch = (case last_index (\<lambda>c. c = ch) s of None \<Rightarrow> npos | Some i \<Rightarrow> i)"

text \<open>
  \<^verbatim>\<open>s.substr(pos, count)\<close> throws \<^verbatim>\<open>std::out_of_range\<close> when \<open>pos\<close> is beyond the
  size of the string, and otherwise returns the characters from \<open>pos\<close>, at most
  \<open>count\<close> of them. A \<^verbatim>\<open>std::string\<close> holds fewer than \<open>npos\<close> characters
  (\<^verbatim>\<open>max_size()\<close>), so the position \<open>npos\<close> is beyond every string.
\<close>

definition substr :: "string \<Rightarrow> nat \<Rightarrow> nat \<Rightarrow> error + string" where
  "substr s pos count =
     (if length s < pos \<or> pos = npos then Inl OutOfRange
      else Inr (take count (drop pos s)))"

subsection \<open>The shader source splitter\<close>

text \<open>
  Modelled from the spec: the two stage kinds, vertex and fragment, are the enumerators
  \<^verbatim>\<open>GL_VERTEX_SHADER\<close> and \<^verbatim>\<open>GL_FRAGMENT_SHADER\<close> of \<^verbatim>\<open>glad/glad.h\<close>, which is
  not among the sources. They have the values of the OpenGL headers; the properties below
  use only that the two differ. \<^verbatim>\<open>GLenum\<close> and \<^verbatim>\<open>GLuint\<close> are unsigned integers on
  which the code does no arithmetic.
\<close>

type_synonym GLenum = nat
type_synonym GLuint = nat

definition GL_VERTEX_SHADER :: GLenum where
  "GL_VERTEX_SHADER = 0x8B31"

definition GL_FRAGMENT_SHADER :: GLenum where
  "GL_FRAGMENT_SHADER = 0x8B30"

definition ShaderTypeFromString :: "string \<Rightarrow> error + GLenum" where
  "ShaderTypeFromString ty =
     (if ty = ''vertex'' then Inr GL_VERTEX_SHADER
      else if ty = ''fragment'' \<or> ty = ''pixel'' then Inr GL_FRAGMENT_SHADER
      else Inl (AssertionFailed ''Unknown shader type!''))"

definition typeToken :: string where
  "typeToken = ''#type''"

definition typeTokenLength :: nat where
  "typeTokenLength = length typeToken"

definition line_breaks :: string where
  \<comment> \<open>the character set \<^verbatim>\<open>"\r\n"\<close>\<close>
  "line_breaks = [CHR 0x0D, CHR 0x0A]"

text \<open>
  The \<^verbatim>\<open>std::unordered_map<GLenum, std::string>\<close> is an association list with one
  entry for each key; \<^verbatim>\<open>shaderSources[k] = v\<close> is \<open>AList.update k v\<close>. The right
  side of the assignment is evaluated before the key (C++17), so the \<open>substr\<close> of
  the stage text comes before \<open>ShaderTypeFromString\<close>.
\<close>

function PreProcess_loop ::
  "string \<Rightarrow> nat \<Rightarrow> (GLenum \<times> string) list \<Rightarrow> error + (GLenum \<times> string) list" where
  "PreProcess_loop source pos shaderSources =
     (if pos = npos then Inr shaderSources
      else
        let eol = find_first_of source line_breaks pos in
        if eol = npos then Inl (AssertionFailed ''Sytax error'')
        else
          let begin_pos = size_t_add (size_t_add pos typeTokenLength) 1 in
          (case substr source begin_pos (size_t_sub eol begin_pos) of
             Inl e \<Rightarrow> Inl e
           | Inr ty \<Rightarrow>
               let nextLinePos = find_first_not_of source line_breaks eol;
                   pos' = str_find source typeToken nextLinePos
               in
               (case substr source nextLinePos
                       (size_t_sub pos'
                          (if nextLinePos = npos then size_t_sub (length source) 1
                           else nextLinePos)) of
                  Inl e \<Rightarrow> Inl e
                | Inr stage_text \<Rightarrow>
                    (case ShaderTypeFromString ty of
                       Inl e \<Rightarrow> Inl e
                     | Inr shaderType \<Rightarrow>
                         PreProcess_loop source pos'
                           (AList.update shaderType stage_text shaderSources)))))"
  by pat_completeness auto

lemma first_match_nonempty_bound:
  "first_match (\<lambda>cs. cs \<noteq> [] \<and> Q cs) cs = Some i \<Longrightarrow> i < length cs"
  by (induction cs arbitrary: i) (auto split: if_splits)

lemma first_match_holds:
  "first_match P cs = Some i \<Longrightarrow> P (drop i cs)"
  by (induction cs arbitrary: i) (auto split: if_splits)

lemma find_first_of_range:
  "find_first_of s chars pos \<noteq> npos \<Longrightarrow>
     pos \<le> find_first_of s chars pos \<and> find_first_of s chars pos < length s"
  by (auto simp: find_first_of_def split: if_splits option.splits
           dest: first_match_nonempty_bound)

lemma find_first_of_hit:
  "find_first_of s chars pos \<noteq> npos \<Longrightarrow> s ! find_first_of s chars pos \<in> set chars"
  by (auto simp: find_first_of_def hd_drop_conv_nth add.commute
           split: if_splits option.splits dest!: first_match_holds)

lemma find_first_not_of_range:
  "find_first_not_of s chars pos \<noteq> npos \<Longrightarrow>
     pos \<le> find_first_not_of s chars pos \<and> find_first_not_of s chars pos < length s"
  by (auto simp: find_first_not_of_def split: if_splits option.splits
           dest: first_match_nonempty_bound)

lemma find_first_not_of_miss:
  "find_first_not_of s chars pos \<noteq> npos \<Longrightarrow>
     s ! find_first_not_of s chars pos \<notin> set chars"
  by (auto simp: find_first_not_of_def hd_drop_conv_nth add.commute
           split: if_splits option.splits dest!: first_match_holds)

lemma str_find_lower:
  "str_find s tok pos \<noteq> npos \<Longrightarrow> pos \<le> str_find s tok pos"
  by (auto simp: str_find_def split: if_splits option.splits)

lemma substr_Inr_pos:
  "substr s pos n = Inr t \<Longrightarrow> pos \<le> length s \<and> pos \<noteq> npos"
  by (auto simp: substr_def split: if_splits)

termination PreProcess_loop
proof (relation "measure (\<lambda>(source, pos, acc).
                   if pos = npos then 0 else Suc (length source - pos))")
  show "wf (measure (\<lambda>(source, pos, acc).
              if pos = npos then 0 else Suc (length source - pos)))"
    by simp
next
  fix source :: string and pos :: nat and shaderSources :: "(GLenum \<times> string) list"
    and eol begin_pos ty nextLinePos pos' stage_text shaderType
  assume pos: "pos \<noteq> npos"
    and eol: "eol = find_first_of source line_breaks pos" "eol \<noteq> npos"
    and nl: "nextLinePos = find_first_not_of source line_breaks eol"
    and p': "pos' = str_find source typeToken nextLinePos"
    and sub: "substr source nextLinePos
                (size_t_sub pos'
                   (if nextLinePos = npos then size_t_sub (length source) 1
                    else nextLinePos)) = Inr stage_text"
  from eol have e1: "pos \<le> eol" "eol < length source"
    using find_first_of_range [of source line_breaks pos] by auto
  from eol have e2: "source ! eol \<in> set line_breaks"
    using find_first_of_hit [of source line_breaks pos] by auto
  from sub have n0: "nextLinePos \<noteq> npos"
    by (auto dest: substr_Inr_pos)
  with nl have n1: "eol \<le> nextLinePos" "source ! nextLinePos \<notin> set line_breaks"
    using find_first_not_of_range [of source line_breaks eol]
      find_first_not_of_miss [of source line_breaks eol] by auto
  with e2 have n2: "eol < nextLinePos"
    by (cases "eol = nextLinePos") auto
  show "((source, pos', AList.update shaderType stage_text shaderSources),
         (source, pos, shaderSources))
        \<in> measure (\<lambda>(source, pos, acc).
                     if pos = npos then 0 else Suc (length source - pos))"
  proof (cases "pos' = npos")
    case True
    with pos show ?thesis by simp
  next
    case False
    with p' have "nextLinePos \<le> pos'"
      using str_find_lower [of source typeToken nextLinePos] by simp
    with n2 e1 pos False show ?thesis by simp
  qed
qed

declare PreProcess_loop.simps [simp del]

definition PreProcess :: "string \<Rightarrow> error + (GLenum \<times> string) list" where
  "PreProcess source = PreProcess_loop source (str_find source typeToken 0) []"

subsection \<open>The native graphics context\<close>

text \<open>
  Modelled from the spec: the native graphics context is the collaborator behind the
  \<^verbatim>\<open>gl*\<close> calls, and its code is not among the sources. Its state is the list of
  the commands it has received (a query, \<^verbatim>\<open>glGet*\<close>, answers from the state and is
  not listed), the counter its object names come from, the stage objects
  with their kind and text, the stages attached to each program, the program in use and
  the uniform values pushed. What the native compiler and linker answer is a parameter of
  the model, \<open>gl_driver\<close>: whether a stage of a given kind and text compiles, whether
  a list of attached stages links, the two diagnostic logs, and the slot of a uniform name
  in a program (\<open>-1\<close> when the name has none).
\<close>

typedecl float

datatype gl_uniform =
    Matrix4fv "float list"
  | Matrix3fv "float list"
  | Uniform4f float float float float
  | Uniform3f float float float
  | Uniform2f float float
  | Uniform1f float
  | Uniform4i int int int int
  | Uniform3i int int int
  | Uniform2i int int
  | Uniform1i int

datatype gl_call =
    CreateProgram GLuint
  | CreateShader GLenum GLuint
  | ShaderSource GLuint string
  | CompileShader GLuint
  | DeleteShader GLuint
  | AttachShader GLuint GLuint
  | LinkProgram GLuint
  | DeleteProgram GLuint
  | DetachShader GLuint GLuint
  | UseProgram GLuint
  | Uniform int gl_uniform
  | CreateVertexArrays GLuint
  | BindVertexArray GLuint
  | BindBuffer GLuint
  | EnableVertexAttribArray GLuint
  | VertexAttribPointer GLuint nat GLenum bool nat nat

record gl_driver =
  compile_status :: "GLenum \<Rightarrow> string \<Rightarrow> bool"
  shader_info_log :: "GLenum \<Rightarrow> string \<Rightarrow> string"
  link_status :: "(GLenum \<times> string) list \<Rightarrow> bool"
  program_info_log :: "(GLenum \<times> string) list \<Rightarrow> string"
  uniform_location :: "GLuint \<Rightarrow> string \<Rightarrow> int"

record world =
  gl_calls :: "gl_call list"
  gl_next_name :: GLuint
  gl_shaders :: "GLuint \<Rightarrow> (GLenum \<times> string) option"
  gl_attached :: "GLuint \<Rightarrow> GLuint list"
  gl_program_in_use :: GLuint
  gl_uniforms :: "GLuint \<times> int \<Rightarrow> gl_uniform option"
  core_log :: "string list"

definition issue :: "gl_call \<Rightarrow> world \<Rightarrow> world" where
  "issue c w = w\<lparr>gl_calls := gl_calls w @ [c]\<rparr>"

definition glCreateProgram :: "world \<Rightarrow> GLuint \<times> world" where
  "glCreateProgram w =
     (let name = gl_next_name w in
      (name, (issue (CreateProgram name) w)
               \<lparr>gl_next_name := name + 1, gl_attached := (gl_attached w)(name := [])\<rparr>))"

definition glCreateShader :: "GLenum \<Rightarrow> world \<Rightarrow> GLuint \<times> world" where
  "glCreateShader shaderType w =
     (let name = gl_next_name w in
      (name, (issue (CreateShader shaderType name) w)
               \<lparr>gl_next_name := name + 1,
                gl_shaders := (gl_shaders w)(name \<mapsto> (shaderType, []))\<rparr>))"

definition glShaderSource :: "GLuint \<Rightarrow> string \<Rightarrow> world \<Rightarrow> world" where
  "glShaderSource shader src w =
     (issue (ShaderSource shader src) w)
       \<lparr>gl_shaders :=
          (case gl_shaders w shader of
             None \<Rightarrow> gl_shaders w
           | Some (shaderType, old) \<Rightarrow> (gl_shaders w)(shader \<mapsto> (shaderType, src)))\<rparr>"

definition glCompileShader :: "GLuint \<Rightarrow> world \<Rightarrow> world" where
  "glCompileShader shader w = issue (CompileShader shader) w"

definition glGetShaderiv_COMPILE_STATUS :: "gl_driver \<Rightarrow> GLuint \<Rightarrow> world \<Rightarrow> bool" where
  "glGetShaderiv_COMPILE_STATUS drv shader w =
     (case gl_shaders w shader of
        None \<Rightarrow> False
      | Some (shaderType, src) \<Rightarrow> compile_status drv shaderType src)"

definition glGetShaderInfoLog :: "gl_driver \<Rightarrow> GLuint \<Rightarrow> world \<Rightarrow> string" where
  "glGetShaderInfoLog drv shader w =
     (case gl_shaders w shader of
        None \<Rightarrow> []
      | Some (shaderType, src) \<Rightarrow> shader_info_log drv shaderType src)"

definition glDeleteShader :: "GLuint \<Rightarrow> world \<Rightarrow> world" where
  "glDeleteShader shader w =
     (issue (DeleteShader shader) w)\<lparr>gl_shaders := (gl_shaders w)(shader := None)\<rparr>"

definition glAttachShader :: "GLuint \<Rightarrow> GLuint \<Rightarrow> world \<Rightarrow> world" where
  "glAttachShader program shader w =
     (issue (AttachShader program shader) w)
       \<lparr>gl_attached := (gl_attached w)(program := gl_attached w program @ [shader])\<rparr>"

definition glLinkProgram :: "GLuint \<Rightarrow> world \<Rightarrow> world" where
  "glLinkProgram program w = issue (LinkProgram program) w"

definition attached_stages :: "GLuint \<Rightarrow> world \<Rightarrow> (GLenum \<times> string) list" where
  "attached_stages program w = List.map_filter (gl_shaders w) (gl_attached w program)"

definition glGetProgramiv_LINK_STATUS :: "gl_driver \<Rightarrow> GLuint \<Rightarrow> world \<Rightarrow> bool" where
  "glGetProgramiv_LINK_STATUS drv program w = link_status drv (attached_stages program w)"

definition glGetProgramInfoLog :: "gl_driver \<Rightarrow> GLuint \<Rightarrow> world \<Rightarrow> string" where
  "glGetProgramInfoLog drv program w = program_info_log drv (attached_stages program w)"

definition glDeleteProgram :: "GLuint \<Rightarrow> world \<Rightarrow> world" where
  "glDeleteProgram program w =
     (issue (DeleteProgram program) w)\<lparr>gl_attached := (gl_attached w)(program := [])\<rparr>"

definition glDetachShader :: "GLuint \<Rightarrow> GLuint \<Rightarrow> world \<Rightarrow> world" where
  "glDetachShader program shader w =
     (issue (DetachShader program shader) w)
       \<lparr>gl_attached := (gl_attached w)(program := remove1 shader (gl_attached w program))\<rparr>"

definition glUseProgram :: "GLuint \<Rightarrow> world \<Rightarrow> world" where
  "glUseProgram program w = (issue (UseProgram program) w)\<lparr>gl_program_in_use := program\<rparr>"

definition glGetUniformLocation :: "gl_driver \<Rightarrow> GLuint \<Rightarrow> string \<Rightarrow> world \<Rightarrow> int" where
  "glGetUniformLocation drv program name w = uniform_location drv program name"

text \<open>
  Modelled from the spec: a uniform push is a command of the native context, whose code is
  not among the sources. The spec says that a push for a name that was not found is
  silently a no-op at the native level: the push at slot \<open>-1\<close> stores nothing. Any
  other push stores the value at that slot of the program in use.
\<close>

definition glUniform :: "int \<Rightarrow> gl_uniform \<Rightarrow> world \<Rightarrow> world" where
  "glUniform location v w =
     (issue (Uniform location v) w)
       \<lparr>gl_uniforms :=
          (if location = - 1 then gl_uniforms w
           else (gl_uniforms w)((gl_program_in_use w, location) \<mapsto> v))\<rparr>"

definition glCreateVertexArrays :: "world \<Rightarrow> GLuint \<times> world" where
  \<comment> \<open>\<^verbatim>\<open>glCreateVertexArrays(1, &id)\<close>\<close>
  "glCreateVertexArrays w =
     (let name = gl_next_name w in
      (name, (issue (CreateVertexArrays name) w)\<lparr>gl_next_name := name + 1\<rparr>))"

definition glBindVertexArray :: "GLuint \<Rightarrow> world \<Rightarrow> world" where
  "glBindVertexArray array w = issue (BindVertexArray array) w"

definition glBindBuffer :: "GLuint \<Rightarrow> world \<Rightarrow> world" where
  "glBindBuffer buffer w = issue (BindBuffer buffer) w"

definition glEnableVertexAttribArray :: "GLuint \<Rightarrow> world \<Rightarrow> world" where
  "glEnableVertexAttribArray index w = issue (EnableVertexAttribArray index) w"

definition glVertexAttribPointer ::
  "GLuint \<Rightarrow> nat \<Rightarrow> GLenum \<Rightarrow> bool \<Rightarrow> nat \<Rightarrow> nat \<Rightarrow> world \<Rightarrow> world" where
  "glVertexAttribPointer index count baseType normalized stride offset w =
     issue (VertexAttribPointer index count baseType normalized stride offset) w"

text \<open>
  Modelled from the spec: \<^verbatim>\<open>HZ_CORE_ERROR\<close> is a macro of the logging facility, which
  is not among the sources and which the spec treats as a write-only sink. It writes one
  formatted line to the core log. \<^verbatim>\<open>HZ_PROFILE_FUNCTION\<close> only measures time and is
  left out.
\<close>

definition HZ_CORE_ERROR :: "string \<Rightarrow> world \<Rightarrow> world" where
  "HZ_CORE_ERROR msg w = w\<lparr>core_log := core_log w @ [msg]\<rparr>"

subsection \<open>The shader: compiling and linking\<close>

record OpenGLShader =
  m_RendererID :: GLuint
  m_Name :: string

text \<open>
  An operation that can halt returns \<open>Inl\<close> with the error and the state in which
  the run halted, or \<open>Inr\<close> with the state it leaves.
\<close>

type_synonym 'a outcome = "(error \<times> 'a) + 'a"

definition Bind :: "OpenGLShader \<Rightarrow> world \<Rightarrow> world" where
  "Bind this w = glUseProgram (m_RendererID this) w"

definition Unbind :: "OpenGLShader \<Rightarrow> world \<Rightarrow> world" where
  "Unbind this w = glUseProgram 0 w"

text \<open>
  The loop of \<^verbatim>\<open>Compile\<close> over the stages, in the order in which the map hands
  them out. \<open>glShaderIDs\<close> is the array of two names and \<open>glShaderIDIndex\<close> the
  next index to write. The failed assertion halts the run, so the \<^verbatim>\<open>break\<close> after
  it is never reached.
\<close>

fun Compile_loop ::
  "gl_driver \<Rightarrow> GLuint \<Rightarrow> (GLenum \<times> string) list \<Rightarrow> GLuint list \<Rightarrow> nat \<Rightarrow> world
     \<Rightarrow> (error \<times> world) + (GLuint list \<times> nat \<times> world)" where
  "Compile_loop drv program [] glShaderIDs glShaderIDIndex w =
     Inr (glShaderIDs, glShaderIDIndex, w)"
| "Compile_loop drv program ((shaderType, source) # rest) glShaderIDs glShaderIDIndex w =
     (let (shaderID, w1) = glCreateShader shaderType w;
          w2 = glShaderSource shaderID source w1;
          w3 = glCompileShader shaderID w2;
          isCompiled = glGetShaderiv_COMPILE_STATUS drv shaderID w3
      in
      if \<not> isCompiled then
        let infoLog = glGetShaderInfoLog drv shaderID w3;
            w4 = glDeleteShader shaderID w3;
            w5 = HZ_CORE_ERROR infoLog w4
        in Inl (AssertionFailed ''Shader compilation failure!'', w5)
      else
        let w4 = glAttachShader program shaderID w3 in
        Compile_loop drv program rest
          (glShaderIDs[glShaderIDIndex := shaderID]) (glShaderIDIndex + 1) w4)"

text \<open>
  \<^verbatim>\<open>Compile\<close>. The array \<^verbatim>\<open>glShaderIDs\<close> is declared without an initialiser:
  \<open>indeterminate\<close> is the pair of names it holds before the loop writes to it.
\<close>

definition Compile ::
  "gl_driver \<Rightarrow> GLuint \<times> GLuint \<Rightarrow> (GLenum \<times> string) list \<Rightarrow> OpenGLShader \<Rightarrow> world
     \<Rightarrow> (OpenGLShader \<times> world) outcome" where
  "Compile drv indeterminate shaderSources this w =
     (let (program, w1) = glCreateProgram w in
      if \<not> length shaderSources \<le> 2
      then Inl (AssertionFailed ''We only support 2 shaders for the moment'', this, w1)
      else
        (case Compile_loop drv program shaderSources
                [fst indeterminate, snd indeterminate] 0 w1 of
           Inl (e, w2) \<Rightarrow> Inl (e, this, w2)
         | Inr (glShaderIDs, glShaderIDIndex, w2) \<Rightarrow>
             let w3 = glLinkProgram program w2;
                 isLinked = glGetProgramiv_LINK_STATUS drv program w3
             in
             if \<not> isLinked then
               let infoLog = glGetProgramInfoLog drv program w3;
                   w4 = glDeleteProgram program w3;
                   w5 = fold glDeleteShader glShaderIDs w4;
                   w6 = HZ_CORE_ERROR infoLog w5
               in Inl (AssertionFailed ''Program linking failure!'', this, w6)
             else
               let w4 = fold (glDetachShader program) glShaderIDs w3;
                   this' = this\<lparr>m_RendererID := program\<rparr>
               in Inr (this', Bind this' w4)))"

subsection \<open>The shader: construction from a file\<close>

text \<open>
  The file system is a map from a path to the bytes of the file, \<open>None\<close> when the
  file cannot be opened.
\<close>

definition ReadFile :: "(string \<Rightarrow> string option) \<Rightarrow> string \<Rightarrow> world \<Rightarrow> string \<times> world" where
  "ReadFile fs filepath w =
     (case fs filepath of
        Some bytes \<Rightarrow> (bytes, w)
      | None \<Rightarrow>
          ([], HZ_CORE_ERROR (''Could not open file '' @ [CHR 0x27] @ filepath @ [CHR 0x27]) w))"

text \<open>The lines of the constructor that extract the name from the path.\<close>

definition name_from_filepath :: "string \<Rightarrow> error + string" where
  "name_from_filepath filepath =
     (let lastSlash = find_last_of filepath [CHR ''/'', CHR 0x5C];
          lastSlash = (if lastSlash = npos then 0 else size_t_add lastSlash 1);
          lastDot = rfind filepath (CHR ''.'');
          count = (if lastDot = npos then size_t_sub (length filepath) lastSlash
                   else size_t_sub lastDot lastSlash)
      in substr filepath lastSlash count)"

text \<open>
  \<^verbatim>\<open>OpenGLShader::OpenGLShader(const std::string& filepath)\<close>. The order in which the
  loop of \<^verbatim>\<open>Compile\<close> meets the entries of the unordered map is left open by the
  language: \<open>iteration\<close> is that order. \<open>raw_id\<close> is what \<^verbatim>\<open>m_RendererID\<close> holds
  before \<^verbatim>\<open>Compile\<close> assigns it.
\<close>

definition OpenGLShader_from_file ::
  "gl_driver \<Rightarrow> (string \<Rightarrow> string option)
     \<Rightarrow> ((GLenum \<times> string) list \<Rightarrow> (GLenum \<times> string) list)
     \<Rightarrow> GLuint \<times> GLuint \<Rightarrow> GLuint \<Rightarrow> string \<Rightarrow> world
     \<Rightarrow> (OpenGLShader \<times> world) outcome" where
  "OpenGLShader_from_file drv fs iteration indeterminate raw_id filepath w =
     (let this = \<lparr>m_RendererID = raw_id, m_Name = []\<rparr>;
          (source, w1) = ReadFile fs filepath w
      in
      case PreProcess source of
        Inl e \<Rightarrow> Inl (e, this, w1)
      | Inr shaderSources \<Rightarrow>
          (case Compile drv indeterminate (iteration shaderSources) this w1 of
             Inl halted \<Rightarrow> Inl halted
           | Inr (this1, w2) \<Rightarrow>
               (case name_from_filepath filepath of
                  Inl e \<Rightarrow> Inl (e, this1, w2)
                | Inr name \<Rightarrow> Inr (this1\<lparr>m_Name := name\<rparr>, w2))))"

subsection \<open>The shader: uniform upload\<close>

definition UploadUniformMat4 ::
  "gl_driver \<Rightarrow> string \<Rightarrow> float list \<Rightarrow> OpenGLShader \<Rightarrow> world \<Rightarrow> OpenGLShader \<times> world" where
  "UploadUniformMat4 drv name matrix this w =
     (let location = glGetUniformLocation drv (m_RendererID this) name w
      in (this, glUniform location (Matrix4fv matrix) w))"

definition UploadUniformMat3 ::
  "gl_driver \<Rightarrow> string \<Rightarrow> float list \<Rightarrow> OpenGLShader \<Rightarrow> world \<Rightarrow> OpenGLShader \<times> world" where
  "UploadUniformMat3 drv name matrix this w =
     (let location = glGetUniformLocation drv (m_RendererID this) name w
      in (this, glUniform location (Matrix3fv matrix) w))"

fun UploadUniformFloat4 ::
  "gl_driver \<Rightarrow> string \<Rightarrow> float \<times> float \<times> float \<times> float \<Rightarrow> OpenGLShader \<Rightarrow> world
     \<Rightarrow> OpenGLShader \<times> world" where
  "UploadUniformFloat4 drv name (x, y, z, t) this w =
     (let location = glGetUniformLocation drv (m_RendererID this) name w
      in (this, glUniform location (Uniform4f x y z t) w))"

fun UploadUniformFloat3 ::
  "gl_driver \<Rightarrow> string \<Rightarrow> float \<times> float \<times> float \<Rightarrow> OpenGLShader \<Rightarrow> world
     \<Rightarrow> OpenGLShader \<times> world" where
  "UploadUniformFloat3 drv name (x, y, z) this w =
     (let location = glGetUniformLocation drv (m_RendererID this) name w
      in (this, glUniform location (Uniform3f x y z) w))"

fun UploadUniformFloat2 ::
  "gl_driver \<Rightarrow> string \<Rightarrow> float \<times> float \<Rightarrow> OpenGLShader \<Rightarrow> world
     \<Rightarrow> OpenGLShader \<times> world" where
  "UploadUniformFloat2 drv name (x, y) this w =
     (let location = glGetUniformLocation drv (m_RendererID this) name w
      in (this, glUniform location (Uniform2f x y) w))"

definition UploadUniformFloat ::
  "gl_driver \<Rightarrow> string \<Rightarrow> float \<Rightarrow> OpenGLShader \<Rightarrow> world \<Rightarrow> OpenGLShader \<times> world" where
  "UploadUniformFloat drv name v this w =
     (let location = glGetUniformLocation drv (m_RendererID this) name w
      in (this, glUniform location (Uniform1f v) w))"

fun UploadUniformInt4 ::
  "gl_driver \<Rightarrow> string \<Rightarrow> int \<times> int \<times> int \<times> int \<Rightarrow> OpenGLShader \<Rightarrow> world
     \<Rightarrow> OpenGLShader \<times> world" where
  "UploadUniformInt4 drv name (x, y, z, t) this w =
     (let location = glGetUniformLocation drv (m_RendererID this) name w
      in (this, glUniform location (Uniform4i x y z t) w))"

fun UploadUniformInt3 ::
  "gl_driver \<Rightarrow> string \<Rightarrow> int \<times> int \<times> int \<Rightarrow> OpenGLShader \<Rightarrow> world
     \<Rightarrow> OpenGLShader \<times> world" where
  "UploadUniformInt3 drv name (x, y, z) this w =
     (let location = glGetUniformLocation drv (m_RendererID this) name w
      in (this, glUniform location (Uniform3i x y z) w))"

fun UploadUniformInt2 ::
  "gl_driver \<Rightarrow> string \<Rightarrow> int \<times> int \<Rightarrow> OpenGLShader \<Rightarrow> world
     \<Rightarrow> OpenGLShader \<times> world" where
  "UploadUniformInt2 drv name (x, y) this w =
     (let location = glGetUniformLocation drv (m_RendererID this) name w
      in (this, glUniform location (Uniform2i x y) w))"

definition UploadUniformInt ::
  "gl_driver \<Rightarrow> string \<Rightarrow> int \<Rightarrow> OpenGLShader \<Rightarrow> world \<Rightarrow> OpenGLShader \<times> world" where
  "UploadUniformInt drv name v this w =
     (let location = glGetUniformLocation drv (m_RendererID this) name w
      in (this, glUniform location (Uniform1i v) w))"

definition UploadUniformBool ::
  "gl_driver \<Rightarrow> string \<Rightarrow> bool \<Rightarrow> OpenGLShader \<Rightarrow> world \<Rightarrow> OpenGLShader \<times> world" where
  "UploadUniformBool drv name v this w =
     (let location = glGetUniformLocation drv (m_RendererID this) name w
      in (this, glUniform location (Uniform1i (if v then 1 else 0)) w))"

definition SetMat4 ::
  "gl_driver \<Rightarrow> string \<Rightarrow> float list \<Rightarrow> OpenGLShader \<Rightarrow> world \<Rightarrow> OpenGLShader \<times> world" where
  "SetMat4 drv name v this w = UploadUniformMat4 drv name v this w"

definition SetFloat4 ::
  "gl_driver \<Rightarrow> string \<Rightarrow> float \<times> float \<times> float \<times> float \<Rightarrow> OpenGLShader \<Rightarrow> world
     \<Rightarrow> OpenGLShader \<times> world" where
  "SetFloat4 drv name v this w = UploadUniformFloat4 drv name v this w"

definition SetFloat3 ::
  "gl_driver \<Rightarrow> string \<Rightarrow> float \<times> float \<times> float \<Rightarrow> OpenGLShader \<Rightarrow> world
     \<Rightarrow> OpenGLShader \<times> world" where
  "SetFloat3 drv name v this w = UploadUniformFloat3 drv name v this w"

definition SetFloat ::
  "gl_driver \<Rightarrow> string \<Rightarrow> float \<Rightarrow> OpenGLShader \<Rightarrow> world \<Rightarrow> OpenGLShader \<times> world" where
  "SetFloat drv name v this w = UploadUniformFloat drv name v this w"

definition SetInt ::
  "gl_driver \<Rightarrow> string \<Rightarrow> int \<Rightarrow> OpenGLShader \<Rightarrow> world \<Rightarrow> OpenGLShader \<times> world" where
  "SetInt drv name v this w = UploadUniformInt drv name v this w"

text \<open>
  One value for each typed setter with its arguments, and the call it stands for, so that
  a statement can speak of every setter at once.
\<close>

datatype upload =
    CallUploadUniformMat4 string "float list"
  | CallUploadUniformMat3 string "float list"
  | CallUploadUniformFloat4 string "float \<times> float \<times> float \<times> float"
  | CallUploadUniformFloat3 string "float \<times> float \<times> float"
  | CallUploadUniformFloat2 string "float \<times> float"
  | CallUploadUniformFloat string float
  | CallUploadUniformInt4 string "int \<times> int \<times> int \<times> int"
  | CallUploadUniformInt3 string "int \<times> int \<times> int"
  | CallUploadUniformInt2 string "int \<times> int"
  | CallUploadUniformInt string int
  | CallUploadUniformBool string bool
  | CallSetMat4 string "float list"
  | CallSetFloat4 string "float \<times> float \<times> float \<times> float"
  | CallSetFloat3 string "float \<times> float \<times> float"
  | CallSetFloat string float
  | CallSetInt string int

fun upload_name :: "upload \<Rightarrow> string" where
  "upload_name (CallUploadUniformMat4 name v) = name"
| "upload_name (CallUploadUniformMat3 name v) = name"
| "upload_name (CallUploadUniformFloat4 name v) = name"
| "upload_name (CallUploadUniformFloat3 name v) = name"
| "upload_name (CallUploadUniformFloat2 name v) = name"
| "upload_name (CallUploadUniformFloat name v) = name"
| "upload_name (CallUploadUniformInt4 name v) = name"
| "upload_name (CallUploadUniformInt3 name v) = name"
| "upload_name (CallUploadUniformInt2 name v) = name"
| "upload_name (CallUploadUniformInt name v) = name"
| "upload_name (CallUploadUniformBool name v) = name"
| "upload_name (CallSetMat4 name v) = name"
| "upload_name (CallSetFloat4 name v) = name"
| "upload_name (CallSetFloat3 name v) = name"
| "upload_name (CallSetFloat name v) = name"
| "upload_name (CallSetInt name v) = name"

fun run_upload :: "gl_driver \<Rightarrow> upload \<Rightarrow> OpenGLShader \<Rightarrow> world \<Rightarrow> OpenGLShader \<times> world" where
  "run_upload drv (CallUploadUniformMat4 name v) this w = UploadUniformMat4 drv name v this w"
| "run_upload drv (CallUploadUniformMat3 name v) this w = UploadUniformMat3 drv name v this w"
| "run_upload drv (CallUploadUniformFloat4 name v) this w = UploadUniformFloat4 drv name v this w"
| "run_upload drv (CallUploadUniformFloat3 name v) this w = UploadUniformFloat3 drv name v this w"
| "run_upload drv (CallUploadUniformFloat2 name v) this w = UploadUniformFloat2 drv name v this w"
| "run_upload drv (CallUploadUniformFloat name v) this w = UploadUniformFloat drv name v this w"
| "run_upload drv (CallUploadUniformInt4 name v) this w = UploadUniformInt4 drv name v this w"
| "run_upload drv (CallUploadUniformInt3 name v) this w = UploadUniformInt3 drv name v this w"
| "run_upload drv (CallUploadUniformInt2 name v) this w = UploadUniformInt2 drv name v this w"
| "run_upload drv (CallUploadUniformInt name v) this w = UploadUniformInt drv name v this w"
| "run_upload drv (CallUploadUniformBool name v) this w = UploadUniformBool drv name v this w"
| "run_upload drv (CallSetMat4 name v) this w = SetMat4 drv name v this w"
| "run_upload drv (CallSetFloat4 name v) this w = SetFloat4 drv name v this w"
| "run_upload drv (CallSetFloat3 name v) this w = SetFloat3 drv name v this w"
| "run_upload drv (CallSetFloat name v) this w = SetFloat drv name v this w"
| "run_upload drv (CallSetInt name v) this w = SetInt drv name v this w"

subsection \<open>The vertex array\<close>

text \<open>
  Modelled from the spec: \<^verbatim>\<open>ShaderDataType\<close>, the layout of a buffer and the vertex
  buffer are declared in \<^verbatim>\<open>Renderer/Buffer.h\<close>, and the members of the vertex array
  in \<^verbatim>\<open>OpenGLVertexArray.h\<close>; neither file is among the sources. The spec gives an
  element a semantic type (float, int or bool of arity 1 to 4, or a 3x3 or 4x4 matrix),
  a byte offset and a normalized flag, and a layout its elements in order with a stride:
  the types are the cases of the switch in \<^verbatim>\<open>ShaderDataTypeToOpenGLBaseType\<close>, so the
  assertion after the switch has no value to fail on. \<^verbatim>\<open>GetComponentCount\<close> is a
  parameter, \<open>component_count\<close>. Binding a vertex buffer is one \<^verbatim>\<open>glBindBuffer\<close>
  with the name of the buffer. The counter \<^verbatim>\<open>m_VertexBufferIndex\<close> is an unsigned
  32-bit integer that starts at 0, the first slot of the spec's example. \<open>Int1\<close> is
  \<^verbatim>\<open>ShaderDataType::Int\<close>, a name that HOL's notation for sets takes.
\<close>

datatype ShaderDataType =
  Float | Float2 | Float3 | Float4 | Mat3 | Mat4 | Int1 | Int2 | Int3 | Int4 | Bool

record BufferElement =
  Type :: ShaderDataType
  Offset :: nat
  Normalized :: bool

record BufferLayout =
  Elements :: "BufferElement list"
  Stride :: nat

record VertexBuffer =
  vb_RendererID :: GLuint
  Layout :: BufferLayout

record OpenGLVertexArray =
  va_RendererID :: GLuint
  m_VertexBufferIndex :: nat
  m_VertexBuffers :: "VertexBuffer list"

definition GL_FLOAT :: GLenum where
  "GL_FLOAT = 0x1406"

definition GL_INT :: GLenum where
  "GL_INT = 0x1404"

definition GL_BOOL :: GLenum where
  "GL_BOOL = 0x8B56"

fun ShaderDataTypeToOpenGLBaseType :: "ShaderDataType \<Rightarrow> GLenum" where
  "ShaderDataTypeToOpenGLBaseType Float = GL_FLOAT"
| "ShaderDataTypeToOpenGLBaseType Float2 = GL_FLOAT"
| "ShaderDataTypeToOpenGLBaseType Float3 = GL_FLOAT"
| "ShaderDataTypeToOpenGLBaseType Float4 = GL_FLOAT"
| "ShaderDataTypeToOpenGLBaseType Mat3 = GL_FLOAT"
| "ShaderDataTypeToOpenGLBaseType Mat4 = GL_FLOAT"
| "ShaderDataTypeToOpenGLBaseType Int1 = GL_INT"
| "ShaderDataTypeToOpenGLBaseType Int2 = GL_INT"
| "ShaderDataTypeToOpenGLBaseType Int3 = GL_INT"
| "ShaderDataTypeToOpenGLBaseType Int4 = GL_INT"
| "ShaderDataTypeToOpenGLBaseType Bool = GL_BOOL"

definition OpenGLVertexArray_new :: "world \<Rightarrow> OpenGLVertexArray \<times> world" where
  \<comment> \<open>the constructor \<^verbatim>\<open>OpenGLVertexArray::OpenGLVertexArray()\<close>\<close>
  "OpenGLVertexArray_new w =
     (let (name, w1) = glCreateVertexArrays w in
      (\<lparr>va_RendererID = name, m_VertexBufferIndex = 0, m_VertexBuffers = []\<rparr>, w1))"

definition VertexBuffer_Bind :: "VertexBuffer \<Rightarrow> world \<Rightarrow> world" where
  "VertexBuffer_Bind vertexBuffer w = glBindBuffer (vb_RendererID vertexBuffer) w"

text \<open>
  The loop of \<^verbatim>\<open>AddVertexBuffer\<close> over the elements of the layout; \<open>index\<close> is
  \<^verbatim>\<open>m_VertexBufferIndex\<close>, and \<^verbatim>\<open>m_VertexBufferIndex++\<close> wraps at \<open>2 ^ 32\<close>.
\<close>

fun AddVertexBuffer_loop ::
  "(BufferElement \<Rightarrow> nat) \<Rightarrow> BufferLayout \<Rightarrow> BufferElement list \<Rightarrow> nat \<Rightarrow> world
     \<Rightarrow> nat \<times> world" where
  "AddVertexBuffer_loop component_count layout [] index w = (index, w)"
| "AddVertexBuffer_loop component_count layout (element # rest) index w =
     (let w1 = glEnableVertexAttribArray index w;
          w2 = glVertexAttribPointer index
                 (component_count element)
                 (ShaderDataTypeToOpenGLBaseType (Type element))
                 (Normalized element)
                 (Stride layout)
                 (Offset element) w1
      in AddVertexBuffer_loop component_count layout rest ((index + 1) mod 2 ^ 32) w2)"

definition AddVertexBuffer ::
  "(BufferElement \<Rightarrow> nat) \<Rightarrow> VertexBuffer \<Rightarrow> OpenGLVertexArray \<times> world
     \<Rightarrow> (OpenGLVertexArray \<times> world) outcome" where
  "AddVertexBuffer component_count vertexBuffer st =
     (let (this, w) = st in
      if length (Elements (Layout vertexBuffer)) = 0
      then Inl (AssertionFailed ''Vertex Buffer has not layout!'', this, w)
      else
        let w1 = glBindVertexArray (va_RendererID this) w;
            w2 = VertexBuffer_Bind vertexBuffer w1;
            layout = Layout vertexBuffer;
            (index, w3) = AddVertexBuffer_loop component_count layout (Elements layout)
                            (m_VertexBufferIndex this) w2
        in Inr (this\<lparr>m_VertexBufferIndex := index,
                      m_VertexBuffers := m_VertexBuffers this @ [vertexBuffer]\<rparr>, w3))"

text \<open>A sequence of \<^verbatim>\<open>AddVertexBuffer\<close> calls on one vertex array, stopped by a halt.\<close>

fun AddVertexBuffers ::
  "(BufferElement \<Rightarrow> nat) \<Rightarrow> VertexBuffer list \<Rightarrow> OpenGLVertexArray \<times> world
     \<Rightarrow> (OpenGLVertexArray \<times> world) outcome" where
  "AddVertexBuffers component_count [] st = Inr st"
| "AddVertexBuffers component_count (vertexBuffer # rest) st =
     (case AddVertexBuffer component_count vertexBuffer st of
        Inl halted \<Rightarrow> Inl halted
      | Inr st' \<Rightarrow> AddVertexBuffers component_count rest st')"

text \<open>The slots of the attribute bindings among the commands, in the order made.\<close>

fun attribute_slots :: "gl_call list \<Rightarrow> nat list" where
  "attribute_slots [] = []"
| "attribute_slots (VertexAttribPointer index n ty nrm stride offset # cs) =
     index # attribute_slots cs"
| "attribute_slots (c # cs) = attribute_slots cs"

subsection \<open>Values for the examples\<close>

text \<open>
  A native context that compiles and links whatever it is given and knows no uniform
  name, a world in which nothing has been called yet, and the commands an outcome holds.
\<close>

definition plain_driver :: gl_driver where
  "plain_driver =
     \<lparr>compile_status = (\<lambda>shaderType src. True),
      shader_info_log = (\<lambda>shaderType src. []),
      link_status = (\<lambda>stages. True),
      program_info_log = (\<lambda>stages. []),
      uniform_location = (\<lambda>program name. - 1)\<rparr>"

definition fresh_world :: world where
  "fresh_world =
     \<lparr>gl_calls = [], gl_next_name = 1, gl_shaders = (\<lambda>name. None),
      gl_attached = (\<lambda>name. []), gl_program_in_use = 0, gl_uniforms = (\<lambda>slot. None),
      core_log = []\<rparr>"

definition calls_of :: "('a \<times> world) outcome \<Rightarrow> gl_call list" where
  "calls_of r = (case r of Inl (e, this, w) \<Rightarrow> gl_calls w | Inr (this, w) \<Rightarrow> gl_calls w)"

subsection \<open>The name of a shader, as the claim words it and as amended\<close>

text \<open>
  \<open>claimed_name\<close> follows the words of the claim: the text strictly between the
  last path separator (or the start of the path) and the last dot (or the end of the
  path). \<open>name_after_separator\<close> is the amended reading: the dot counts only when
  it stands after the last separator.
\<close>

definition claimed_name :: "string \<Rightarrow> string" where
  "claimed_name filepath =
     (let start = (case last_index (\<lambda>c. c = CHR ''/'' \<or> c = CHR 0x5C) filepath of
                     None \<Rightarrow> 0 | Some i \<Rightarrow> i + 1);
          stop = (case last_index (\<lambda>c. c = CHR ''.'') filepath of
                    None \<Rightarrow> length filepath | Some j \<Rightarrow> j)
      in take (stop - start) (drop start filepath))"

definition name_after_separator :: "string \<Rightarrow> string" where
  "name_after_separator filepath =
     (let start = (case last_index (\<lambda>c. c = CHR ''/'' \<or> c = CHR 0x5C) filepath of
                     None \<Rightarrow> 0 | Some i \<Rightarrow> i + 1);
          stop = (case last_index (\<lambda>c. c = CHR ''.'') filepath of
                    None \<Rightarrow> length filepath
                  | Some j \<Rightarrow> if start \<le> j then j else length filepath)
      in take (stop - start) (drop start filepath))"

subsection \<open>Well-formed stage blocks\<close>

text \<open>
  A text holds no marker when the search for the marker token finds nothing in it, and a
  stage text has no leading line break when it is empty or starts with another character.
\<close>

definition no_marker :: "string \<Rightarrow> bool" where
  "no_marker cs = (first_match (starts_with typeToken) cs = None)"

definition no_leading_line_break :: "string \<Rightarrow> bool" where
  "no_leading_line_break cs = (case cs of [] \<Rightarrow> True | c # rest \<Rightarrow> c \<notin> set line_breaks)"

text \<open>
  The stage-name argument of a marker, in the words of the spec: the remainder of the
  marker line after the marker token, up to the next line break. \<open>marker_line_rest\<close>
  is that remainder and \<open>stage_name_argument\<close> the remainder without the one
  character that separates the name from the token.
\<close>

definition marker_line_rest :: "string \<Rightarrow> nat \<Rightarrow> string" where
  "marker_line_rest source pos =
     takeWhile (\<lambda>c. c \<notin> set line_breaks) (drop (pos + typeTokenLength) source)"

definition stage_name_argument :: "string \<Rightarrow> nat \<Rightarrow> string" where
  "stage_name_argument source pos = drop 1 (marker_line_rest source pos)"

subsection \<open>Reading an outcome\<close>

text \<open>
  The commands a run added to the context, the value a typed setter pushes, and the number
  of layout elements of a list of vertex buffers.
\<close>

definition new_calls :: "world \<Rightarrow> world \<Rightarrow> gl_call list" where
  "new_calls w w' = drop (length (gl_calls w)) (gl_calls w')"

fun upload_value :: "upload \<Rightarrow> gl_uniform" where
  "upload_value (CallUploadUniformMat4 name v) = Matrix4fv v"
| "upload_value (CallUploadUniformMat3 name v) = Matrix3fv v"
| "upload_value (CallUploadUniformFloat4 name (x, y, z, t)) = Uniform4f x y z t"
| "upload_value (CallUploadUniformFloat3 name (x, y, z)) = Uniform3f x y z"
| "upload_value (CallUploadUniformFloat2 name (x, y)) = Uniform2f x y"
| "upload_value (CallUploadUniformFloat name v) = Uniform1f v"
| "upload_value (CallUploadUniformInt4 name (x, y, z, t)) = Uniform4i x y z t"
| "upload_value (CallUploadUniformInt3 name (x, y, z)) = Uniform3i x y z"
| "upload_value (CallUploadUniformInt2 name (x, y)) = Uniform2i x y"
| "upload_value (CallUploadUniformInt name v) = Uniform1i v"
| "upload_value (CallUploadUniformBool name v) = Uniform1i (if v then 1 else 0)"
| "upload_value (CallSetMat4 name v) = Matrix4fv v"
| "upload_value (CallSetFloat4 name (x, y, z, t)) = Uniform4f x y z t"
| "upload_value (CallSetFloat3 name (x, y, z)) = Uniform3f x y z"
| "upload_value (CallSetFloat name v) = Uniform1f v"
| "upload_value (CallSetInt name v) = Uniform1i v"

definition element_count :: "VertexBuffer list \<Rightarrow> nat" where
  "element_count vbs = sum_list (map (\<lambda>vb. length (Elements (Layout vb))) vbs)"

subsection \<open>More values for the examples\<close>

text \<open>
  A native context whose linker rejects every program, one whose compiler accepts only
  the stage text \<^verbatim>\<open>ok\<close>, and two vertex buffers with layouts of two and of three
  elements.
\<close>

definition failing_link_driver :: gl_driver where
  "failing_link_driver =
     plain_driver\<lparr>link_status := (\<lambda>stages. False),
                  program_info_log := (\<lambda>stages. ''link error'')\<rparr>"

definition picky_driver :: gl_driver where
  "picky_driver =
     plain_driver\<lparr>compile_status := (\<lambda>shaderType src. src = ''ok''),
                  shader_info_log := (\<lambda>shaderType src. ''syntax error'')\<rparr>"

definition position_color_buffer :: VertexBuffer where
  "position_color_buffer =
     \<lparr>vb_RendererID = 7,
      Layout = \<lparr>Elements = [\<lparr>Type = Float3, Offset = 0, Normalized = False\<rparr>,
                            \<lparr>Type = Float4, Offset = 12, Normalized = False\<rparr>],
                Stride = 28\<rparr>\<rparr>"

definition instance_buffer :: VertexBuffer where
  "instance_buffer =
     \<lparr>vb_RendererID = 8,
      Layout = \<lparr>Elements = [\<lparr>Type = Float2, Offset = 0, Normalized = False\<rparr>,
                            \<lparr>Type = Int1, Offset = 8, Normalized = False\<rparr>,
                            \<lparr>Type = Bool, Offset = 12, Normalized = True\<rparr>],
                Stride = 13\<rparr>\<rparr>"

text \<open>A shader file with a comment line, a vertex stage and a fragment stage.\<close>

definition flat_vertex_text :: string where
  "flat_vertex_text = ''#version 330 core'' @ [CHR 0x0A] @ ''void main(){}'' @ [CHR 0x0A]"

definition flat_fragment_text :: string where
  "flat_fragment_text = ''void main(){}''"

definition flat_source :: string where
  "flat_source =
     ''// flat'' @ [CHR 0x0A] @ ''#type vertex'' @ [CHR 0x0A] @ flat_vertex_text @
     ''#type fragment'' @ [CHR 0x0D, CHR 0x0A] @ flat_fragment_text"

section \<open>Properties\<close>

lemmas string_defs =
  str_find_def find_first_of_def find_first_not_of_def substr_def typeToken_def
  typeTokenLength_def line_breaks_def starts_with_def npos_def size_t_add_def
  size_t_sub_def ShaderTypeFromString_def

lemmas gl_defs =
  issue_def glCreateProgram_def glCreateShader_def glShaderSource_def glCompileShader_def
  glGetShaderiv_COMPILE_STATUS_def glGetShaderInfoLog_def glDeleteShader_def
  glAttachShader_def glLinkProgram_def attached_stages_def glGetProgramiv_LINK_STATUS_def
  glGetProgramInfoLog_def glDeleteProgram_def glDetachShader_def glUseProgram_def
  HZ_CORE_ERROR_def Bind_def

subsection \<open>Arithmetic of \<^verbatim>\<open>size_t\<close>\<close>

lemma wrap_sub_le:
  fixes N :: nat
  assumes "b \<le> a" and "a < N"
  shows "(a + N - b) mod N = a - b"
proof -
  have "a + N - b = (a - b) + N" using assms by simp
  then have "(a + N - b) mod N = (a - b) mod N" by simp
  then show ?thesis using assms by simp
qed

lemma size_t_sub_le: "b \<le> a \<Longrightarrow> a < 2 ^ 64 \<Longrightarrow> size_t_sub a b = a - b"
  unfolding size_t_sub_def using wrap_sub_le [of b a "2 ^ 64"] by simp

lemma size_t_sub_wrap: "a < b \<Longrightarrow> b < 2 ^ 64 \<Longrightarrow> size_t_sub a b = 2 ^ 64 + a - b"
  by (simp add: size_t_sub_def)

lemma size_t_add_small: "a + b < 2 ^ 64 \<Longrightarrow> size_t_add a b = a + b"
  by (simp add: size_t_add_def)

lemma last_index_bound: "last_index P cs = Some i \<Longrightarrow> i < length cs"
  by (induction cs arbitrary: i) (auto split: option.splits if_splits)

lemma PreProcess_empty: "PreProcess [] = Inr []"
  unfolding PreProcess_def
  by (subst PreProcess_loop.simps) (simp add: string_defs)

subsection \<open>The splitter on a marker that ends the input\<close>

text \<open>
  When the line of the marker at \<open>pos\<close> is followed by line breaks only, up to the end
  of the input, \<open>nextLinePos\<close> is \<open>npos\<close> and the \<open>substr\<close> of the stage text
  throws: the loop returns no mapping, whatever it has collected.
\<close>

lemma PreProcess_loop_marker_last:
  assumes "pos \<noteq> npos"
    and "find_first_not_of source line_breaks (find_first_of source line_breaks pos) = npos"
  shows "\<exists>e. PreProcess_loop source pos shaderSources = Inl e"
  using assms
  by (subst PreProcess_loop.simps) (simp add: Let_def substr_def split: sum.splits)

text \<open>
  C1 (the code does otherwise). The claim: when a stage marker line is the last content of
  the input, the splitter gives that stage the empty string. The code: for the input
  \<^verbatim>\<open>"#type vertex\n"\<close>, and for a two-stage input that ends with the line
  \<^verbatim>\<open>"#type fragment\n"\<close>, \<open>PreProcess\<close> ends with \<^verbatim>\<open>std::out_of_range\<close>
  and returns no mapping.
\<close>

theorem PreProcess_marker_last_throws:
  "PreProcess (''#type vertex'' @ [CHR 0x0A]) = Inl OutOfRange \<and>
   PreProcess (''#type vertex'' @ [CHR 0x0A] @ ''void main(){}'' @ [CHR 0x0A]
                 @ ''#type fragment'' @ [CHR 0x0A]) = Inl OutOfRange"
proof
  show "PreProcess (''#type vertex'' @ [CHR 0x0A]) = Inl OutOfRange"
    unfolding PreProcess_def
    by (subst PreProcess_loop.simps) (simp add: string_defs)
  show "PreProcess (''#type vertex'' @ [CHR 0x0A] @ ''void main(){}'' @ [CHR 0x0A]
                 @ ''#type fragment'' @ [CHR 0x0A]) = Inl OutOfRange"
    unfolding PreProcess_def
    apply (subst PreProcess_loop.simps)
    apply (simp add: string_defs)
    apply (subst PreProcess_loop.simps)
    apply (simp add: string_defs)
    done
qed

subsection \<open>The splitter on a marker with no stage name\<close>

text \<open>
  A halt of the splitter halts the constructor before \<open>Compile\<close>: the world is the
  one \<open>ReadFile\<close> left, with no command issued. A marker with a name that is written
  out and not recognized, as in \<^verbatim>\<open>"#type geometry\nvoid main(){}"\<close>, halts the splitter
  at the assertion of \<open>ShaderTypeFromString\<close>.
\<close>

lemma from_file_halts_in_PreProcess:
  assumes "fs filepath = Some source" and "PreProcess source = Inl e"
  shows "OpenGLShader_from_file drv fs iteration indeterminate raw_id filepath w =
           Inl (e, \<lparr>m_RendererID = raw_id, m_Name = []\<rparr>, w)"
  using assms by (simp add: OpenGLShader_from_file_def ReadFile_def)

lemma PreProcess_unknown_name:
  "PreProcess (''#type geometry'' @ [CHR 0x0A] @ ''void main(){}'') =
     Inl (AssertionFailed ''Unknown shader type!'')"
  unfolding PreProcess_def
  by (subst PreProcess_loop.simps) (simp add: string_defs)

lemma first_match_takeWhile:
  assumes "first_match (\<lambda>cs. cs \<noteq> [] \<and> hd cs \<in> S) xs = Some i"
  shows "takeWhile (\<lambda>c. c \<notin> S) xs = take i xs"
  using assms
  by (induction xs arbitrary: i) (auto split: if_splits)

lemma takeWhile_drop_prefix:
  assumes "\<forall>c \<in> set (take n xs). Q c"
  shows "takeWhile Q (drop n xs) = drop n (takeWhile Q xs)"
  using assms
proof (induction xs arbitrary: n)
  case Nil
  then show ?case by simp
next
  case (Cons x xs)
  then show ?case by (cases n) auto
qed

text \<open>
  Whenever the loop stands at a marker token that is followed on its line by at least one
  character, and the stage-name argument is not a recognized name, the loop halts.
\<close>

lemma PreProcess_loop_unknown_name:
  assumes pos: "pos \<noteq> npos"
    and len: "length source < npos"
    and tok: "starts_with typeToken (drop pos source)"
    and sep: "marker_line_rest source pos \<noteq> []"
    and name: "ShaderTypeFromString (stage_name_argument source pos) = Inl e"
  shows "\<exists>e'. PreProcess_loop source pos shaderSources = Inl e'"
proof (cases "find_first_of source line_breaks pos = npos")
  case True
  with pos show ?thesis
    by (subst PreProcess_loop.simps) (simp add: Let_def)
next
  case False
  let ?xs = "drop pos source"
  from False obtain i where i: "first_match (\<lambda>cs. cs \<noteq> [] \<and> hd cs \<in> set line_breaks) ?xs = Some i"
    and eol: "find_first_of source line_breaks pos = pos + i"
    and pos_le: "pos \<le> length source"
    by (auto simp: find_first_of_def split: if_splits option.splits)
  have tok_len: "length typeToken = 5" by (simp add: typeToken_def)
  from tok have five: "take 5 ?xs = ''#type''"
    unfolding starts_with_def tok_len by (simp add: typeToken_def)
  then have clean: "\<forall>c \<in> set (take 5 ?xs). c \<notin> set line_breaks"
    by (simp add: line_breaks_def)
  have tw: "takeWhile (\<lambda>c. c \<notin> set line_breaks) ?xs = take i ?xs"
    using i by (rule first_match_takeWhile)
  have ttl: "typeTokenLength = 5"
    by (simp add: typeTokenLength_def typeToken_def)
  have rest: "marker_line_rest source pos = take (i - 5) (drop 5 ?xs)"
  proof -
    have "marker_line_rest source pos = takeWhile (\<lambda>c. c \<notin> set line_breaks) (drop 5 ?xs)"
      unfolding marker_line_rest_def ttl by (simp add: add.commute)
    also have "\<dots> = drop 5 (takeWhile (\<lambda>c. c \<notin> set line_breaks) ?xs)"
      by (rule takeWhile_drop_prefix [OF clean])
    also have "\<dots> = drop 5 (take i ?xs)"
      by (simp only: tw)
    also have "\<dots> = take (i - 5) (drop 5 ?xs)"
      by (simp add: drop_take)
    finally show ?thesis .
  qed
  with sep have i6: "6 \<le> i" by (cases "i - 5") auto
  have arg: "stage_name_argument source pos = take (i - 6) (drop 6 ?xs)"
    using i6 by (simp add: stage_name_argument_def rest drop_take)
  from i have "i < length ?xs" by (rule first_match_nonempty_bound)
  with len have bound: "pos + i < 2 ^ 64 - 1" "pos + i < length source"
    by (simp_all add: npos_def)
  have begin_eq: "size_t_add (size_t_add pos typeTokenLength) 1 = pos + 6"
  proof -
    have "pos + 5 < 2 ^ 64" "pos + 5 + 1 < 2 ^ 64" using bound i6 by simp_all
    then show ?thesis
      by (simp add: size_t_add_small ttl)
  qed
  have cnt: "size_t_sub (pos + i) (pos + 6) = i - 6"
    using bound i6 by (simp add: size_t_sub_le)
  have ty: "substr source (pos + 6) (i - 6) = Inr (stage_name_argument source pos)"
    using bound i6 by (simp add: substr_def arg npos_def add.commute)
  show ?thesis
    apply (subst PreProcess_loop.simps)
    apply (simp only: pos False eol begin_eq cnt ty Let_def if_False sum.case name)
    apply (simp split: sum.splits)
    done
qed

text \<open>
  So the constructor halts before \<open>Compile\<close>, with no command issued, when the first
  marker of the file is followed on its line by a name that is not recognized.
\<close>

lemma unknown_first_name_halts_before_Compile:
  assumes opened: "fs filepath = Some source"
    and len: "length source < npos"
    and first: "str_find source typeToken 0 = pos" "pos \<noteq> npos"
    and sep: "marker_line_rest source pos \<noteq> []"
    and name: "ShaderTypeFromString (stage_name_argument source pos) = Inl e"
  shows "\<exists>e'. OpenGLShader_from_file drv fs iteration indeterminate raw_id filepath w =
                Inl (e', \<lparr>m_RendererID = raw_id, m_Name = []\<rparr>, w)"
proof -
  from first have "first_match (starts_with typeToken) source = Some pos"
    by (auto simp: str_find_def split: option.splits)
  then have "starts_with typeToken (drop pos source)"
    by (rule first_match_holds)
  from PreProcess_loop_unknown_name [OF first(2) len this sep name, of "[]"]
  obtain e' where "PreProcess source = Inl e'"
    by (auto simp: PreProcess_def first(1))
  with opened show ?thesis
    by (auto simp: from_file_halts_in_PreProcess)
qed

lemma PreProcess_marker_without_name:
  "PreProcess (''#type'' @ [CHR 0x0A] @ ''vertex'') = Inr [(GL_VERTEX_SHADER, ''vertex'')]"
  unfolding PreProcess_def
  apply (subst PreProcess_loop.simps)
  apply (simp add: string_defs)
  apply (subst PreProcess_loop.simps)
  apply (simp add: string_defs)
  done

text \<open>
  C4 (the code does otherwise). The claim: a source with a stage marker whose stage name
  is not \<^verbatim>\<open>vertex\<close>, \<^verbatim>\<open>fragment\<close> or \<^verbatim>\<open>pixel\<close> halts the pipeline before any
  native compile call. The code: in the file \<^verbatim>\<open>"#type\nvertex"\<close> the marker line
  names no stage, so its stage-name argument is empty and not a recognized name. There
  \<open>eol - begin\<close> wraps around, the type read is the rest of the file,
  \<^verbatim>\<open>vertex\<close>, and the constructor goes on to create and compile a vertex stage.
\<close>

theorem marker_without_name_is_compiled:
  "stage_name_argument (''#type'' @ [CHR 0x0A] @ ''vertex'') 0 = [] \<and>
   ShaderTypeFromString [] = Inl (AssertionFailed ''Unknown shader type!'') \<and>
   calls_of (OpenGLShader_from_file plain_driver
               (\<lambda>path. Some (''#type'' @ [CHR 0x0A] @ ''vertex''))
               (\<lambda>entries. entries) (0, 0) 0 ''a.glsl'' fresh_world) =
     [CreateProgram 1, CreateShader GL_VERTEX_SHADER 2, ShaderSource 2 ''vertex'',
      CompileShader 2, AttachShader 1 2, LinkProgram 1, DetachShader 1 2, DetachShader 1 0,
      UseProgram 1]"
proof (intro conjI)
  show "stage_name_argument (''#type'' @ [CHR 0x0A] @ ''vertex'') 0 = []"
    by (simp add: stage_name_argument_def marker_line_rest_def typeTokenLength_def
          typeToken_def line_breaks_def)
  show "ShaderTypeFromString [] = Inl (AssertionFailed ''Unknown shader type!'')"
    by (simp add: ShaderTypeFromString_def)
  show "calls_of (OpenGLShader_from_file plain_driver
               (\<lambda>path. Some (''#type'' @ [CHR 0x0A] @ ''vertex''))
               (\<lambda>entries. entries) (0, 0) 0 ''a.glsl'' fresh_world) =
     [CreateProgram 1, CreateShader GL_VERTEX_SHADER 2, ShaderSource 2 ''vertex'',
      CompileShader 2, AttachShader 1 2, LinkProgram 1, DetachShader 1 2, DetachShader 1 0,
      UseProgram 1]"
    unfolding OpenGLShader_from_file_def ReadFile_def
    apply (simp add: PreProcess_marker_without_name del: append.simps)
    apply (simp add: Compile_def gl_defs plain_driver_def fresh_world_def Let_def
                     List.map_filter_def calls_of_def)
    apply (simp add: name_from_filepath_def find_last_of_def rfind_def string_defs)
    done
qed

subsection \<open>The name stored by the constructor\<close>

lemma name_from_filepath_eq:
  assumes "length filepath < npos"
  shows "name_from_filepath filepath = Inr (name_after_separator filepath)"
proof -
  let ?sep = "last_index (\<lambda>c. c = CHR ''/'' \<or> c = CHR 0x5C) filepath"
  let ?dot = "last_index (\<lambda>c. c = CHR ''.'') filepath"
  define start where "start = (case ?sep of None \<Rightarrow> 0 | Some i \<Rightarrow> i + 1)"
  have n: "length filepath < 2 ^ 64 - 1" using assms by (simp add: npos_def)
  have start_le: "start \<le> length filepath"
    by (auto simp: start_def dest: last_index_bound split: option.splits)
  have ls: "(if find_last_of filepath [CHR ''/'', CHR 0x5C] = npos then 0
             else size_t_add (find_last_of filepath [CHR ''/'', CHR 0x5C]) 1) = start"
    using n by (auto simp: find_last_of_def start_def npos_def size_t_add_def
                     dest!: last_index_bound split: option.splits)
  have sub: "substr filepath start k = Inr (take k (drop start filepath))" for k
    using start_le n by (auto simp: substr_def npos_def)
  show ?thesis
  proof (cases ?dot)
    case None
    then show ?thesis
      using n start_le
      by (simp add: name_from_filepath_def Let_def ls rfind_def sub size_t_sub_le
            name_after_separator_def start_def [symmetric])
  next
    case (Some j)
    then have j: "j < length filepath" by (rule last_index_bound)
    with n have jn: "j \<noteq> npos" by (simp add: npos_def)
    show ?thesis
    proof (cases "start \<le> j")
      case True
      with Some j jn n show ?thesis
        by (simp add: name_from_filepath_def Let_def ls rfind_def sub size_t_sub_le
              name_after_separator_def start_def [symmetric])
    next
      case False
      then have "size_t_sub j start = 2 ^ 64 + j - start"
        using start_le n by (simp add: size_t_sub_wrap)
      then have "length filepath - start \<le> size_t_sub j start"
        using n by simp
      then have "take (size_t_sub j start) (drop start filepath) = drop start filepath"
        by simp
      with False Some j jn n show ?thesis
        by (simp add: name_from_filepath_def Let_def ls rfind_def sub
              name_after_separator_def start_def [symmetric])
    qed
  qed
qed

lemma from_file_empty_source:
  "OpenGLShader_from_file plain_driver (\<lambda>path. Some []) (\<lambda>entries. entries)
     (0, 0) 0 filepath fresh_world =
   (case name_from_filepath filepath of
      Inl e \<Rightarrow>
        Inl (e, \<lparr>m_RendererID = 1, m_Name = []\<rparr>,
             fresh_world\<lparr>gl_calls := [CreateProgram 1, LinkProgram 1, DetachShader 1 0,
                                       DetachShader 1 0, UseProgram 1],
                         gl_next_name := 2, gl_program_in_use := 1\<rparr>)
    | Inr name \<Rightarrow>
        Inr (\<lparr>m_RendererID = 1, m_Name = name\<rparr>,
             fresh_world\<lparr>gl_calls := [CreateProgram 1, LinkProgram 1, DetachShader 1 0,
                                       DetachShader 1 0, UseProgram 1],
                         gl_next_name := 2, gl_program_in_use := 1\<rparr>))"
  unfolding OpenGLShader_from_file_def ReadFile_def
  by (simp add: PreProcess_empty Compile_def gl_defs plain_driver_def fresh_world_def
        Let_def List.map_filter_def fun_eq_iff split: sum.splits)

text \<open>
  C10, as the claim states it, fails: for the path \<^verbatim>\<open>../assets/Texture\<close> the last dot
  stands before the last separator, nothing lies between the separator and that dot, and
  the constructor stores \<^verbatim>\<open>Texture\<close>.
\<close>

theorem stored_name_dot_before_separator:
  "(case OpenGLShader_from_file plain_driver (\<lambda>path. Some []) (\<lambda>entries. entries)
           (0, 0) 0 ''../assets/Texture'' fresh_world of
      Inl halted \<Rightarrow> False
    | Inr (this, w') \<Rightarrow> m_Name this = ''Texture'') \<and>
   claimed_name ''../assets/Texture'' = []"
  by (simp add: from_file_empty_source name_from_filepath_def claimed_name_def
        find_last_of_def rfind_def string_defs)

text \<open>
  C10, amended. For every path shorter than \<open>npos\<close>, the name the constructor stores
  (whenever it completes) is the text from after the last path separator, or from the
  start of the path when it has none, up to the last dot when that dot stands after the
  separator, and up to the end of the path otherwise.
\<close>

theorem stored_name_after_separator:
  assumes "length filepath < npos"
  shows "name_from_filepath filepath = Inr (name_after_separator filepath) \<and>
         (case OpenGLShader_from_file drv fs iteration indeterminate raw_id filepath w of
            Inl halted \<Rightarrow> True
          | Inr (this, w') \<Rightarrow> m_Name this = name_after_separator filepath)"
  using assms
  by (auto simp: OpenGLShader_from_file_def Let_def name_from_filepath_eq
           split: sum.splits prod.splits)

theorem stored_name_after_separator_witness:
  "length ''assets/Texture.glsl'' < npos \<and>
   name_from_filepath ''assets/Texture.glsl'' = Inr ''Texture'' \<and>
   (case OpenGLShader_from_file plain_driver (\<lambda>path. Some []) (\<lambda>entries. entries)
           (0, 0) 0 ''assets/Texture.glsl'' fresh_world of
      Inl halted \<Rightarrow> False
    | Inr (this, w') \<Rightarrow> m_Name this = ''Texture'')"
proof -
  have len: "length ''assets/Texture.glsl'' < npos"
    by (simp add: npos_def)
  have name: "name_after_separator ''assets/Texture.glsl'' = ''Texture''"
    by (simp add: name_after_separator_def)
  from stored_name_after_separator [OF len, of plain_driver "\<lambda>path. Some []"
      "\<lambda>entries. entries" "(0, 0)" 0 fresh_world]
  show ?thesis
    using len by (simp add: name from_file_empty_source)
qed

subsection \<open>The splitter on two well-formed stage blocks\<close>

lemma list_cases4:
  obtains "xs = []" | a where "xs = [a]" | a b where "xs = [a, b]"
  | a b c where "xs = [a, b, c]" | a b c d ys where "xs = a # b # c # d # ys"
  by (cases xs; cases "tl xs"; cases "tl (tl xs)"; cases "tl (tl (tl xs))") auto

lemma starts_with_token_append:
  assumes "\<not> starts_with typeToken (c # cs)"
  shows "\<not> starts_with typeToken (c # cs @ typeToken @ rest)"
  using assms
  by (cases cs rule: list_cases4) (auto simp: starts_with_def typeToken_def)

lemma first_match_token_append:
  assumes "first_match (starts_with typeToken) b = None"
  shows "first_match (starts_with typeToken) (b @ typeToken @ rest) = Some (length b)"
  using assms
proof (induction b)
  case Nil
  then show ?case by (simp add: starts_with_def typeToken_def)
next
  case (Cons c b)
  from Cons.prems have no: "\<not> starts_with typeToken (c # b)"
    and rest: "first_match (starts_with typeToken) b = None"
    by (auto split: if_splits)
  from no have "\<not> starts_with typeToken (c # b @ typeToken @ rest)"
    by (rule starts_with_token_append)
  with Cons.IH [OF rest] show ?case by simp
qed

lemma first_match_char_hit:
  assumes "\<forall>c \<in> set xs. \<not> Q c" and "Q e"
  shows "first_match (\<lambda>cs. cs \<noteq> [] \<and> Q (hd cs)) (xs @ e # rest) = Some (length xs)"
  using assms by (induction xs) auto

lemma recognized_name:
  assumes "ShaderTypeFromString name = Inr kind"
  shows "name \<in> {''vertex'', ''fragment'', ''pixel''} \<and>
         kind \<in> {GL_VERTEX_SHADER, GL_FRAGMENT_SHADER} \<and>
         (\<forall>c \<in> set name. c \<notin> set line_breaks) \<and> length name \<le> 8"
  using assms by (auto simp: ShaderTypeFromString_def line_breaks_def split: if_splits)

text \<open>
  One turn of the loop at a well-formed block: the marker token, a space, a recognized
  name, line breaks, and the stage text up to the next marker or to the end of the input.
\<close>

lemma PreProcess_loop_block:
  assumes src: "source = u @ typeToken @ [CHR '' ''] @ name @ eol @ body @ rest"
    and name: "ShaderTypeFromString name = Inr kind"
    and eol: "eol \<noteq> []" "set eol \<subseteq> set line_breaks"
    and body: "no_marker body" "no_leading_line_break body"
    and rest: "rest = typeToken @ rest' \<or> rest = [] \<and> body \<noteq> []"
    and len: "length source < npos"
  shows "PreProcess_loop source (length u) acc =
           PreProcess_loop source
             (if rest = [] then npos else length (u @ typeToken @ [CHR '' ''] @ name @ eol @ body))
             (AList.update kind body acc)"
proof -
  define hdr where "hdr = typeToken @ [CHR '' ''] @ name"
  have hdr_len: "length hdr = 6 + length name"
    by (simp add: hdr_def typeToken_def)
  have source: "source = u @ hdr @ eol @ body @ rest"
    by (simp add: src hdr_def)
  from recognized_name [OF name]
  have name_clean: "\<forall>c \<in> set name. c \<notin> set line_breaks" by simp
  then have hdr_clean: "\<forall>c \<in> set hdr. \<not> c \<in> set line_breaks"
    by (auto simp: hdr_def typeToken_def line_breaks_def)
  from len have bound: "length u + length hdr + length eol + length body + length rest < 2 ^ 64 - 1"
    by (simp add: source npos_def)
  obtain e es where e: "eol = e # es" using eol(1) by (cases eol) auto
  with eol(2) have e_lb: "e \<in> set line_breaks" by simp
  have d1: "drop (length u) source = hdr @ e # (es @ body @ rest)"
    by (simp add: source e)
  have eolpos: "find_first_of source line_breaks (length u) = length u + length hdr"
    unfolding find_first_of_def d1
    using first_match_char_hit [of hdr "\<lambda>c. c \<in> set line_breaks" e "es @ body @ rest",
        OF hdr_clean e_lb]
    by (simp add: source)
  have eol_ne: "length u + length hdr \<noteq> npos"
    using bound by (simp add: npos_def)
  have begin_eq: "size_t_add (size_t_add (length u) typeTokenLength) 1 = length u + 6"
  proof -
    have "length u + 5 < 2 ^ 64" "length u + 5 + 1 < 2 ^ 64"
      using bound hdr_len by simp_all
    then show ?thesis
      by (simp add: size_t_add_small typeTokenLength_def typeToken_def)
  qed
  have cnt: "size_t_sub (length u + length hdr) (length u + 6) = length name"
    using bound by (simp add: size_t_sub_def hdr_len)
  have ty: "substr source (length u + 6) (length name) = Inr name"
    using bound by (simp add: substr_def source hdr_def typeToken_def npos_def)
  have pos_ne: "length u \<noteq> npos"
    using bound by (simp add: npos_def)
  let ?nl = "length u + length hdr + length eol"
  have nl_bound: "?nl + length body + length rest < 2 ^ 64 - 1"
    using bound by simp
  have follow: "\<exists>x xs. body @ rest = x # xs \<and> x \<notin> set line_breaks"
  proof (cases body)
    case Nil
    with rest have "rest = typeToken @ rest'" by simp
    with Nil show ?thesis by (simp add: typeToken_def line_breaks_def)
  next
    case (Cons b bs)
    with body(2) show ?thesis by (simp add: no_leading_line_break_def)
  qed
  then obtain x xs where x: "body @ rest = x # xs" "x \<notin> set line_breaks" by blast
  have d2: "drop (length u + length hdr) source = eol @ x # xs"
    by (simp add: source x)
  have eol_all: "\<forall>c \<in> set eol. \<not> c \<notin> set line_breaks"
    using eol(2) by auto
  have nl: "find_first_not_of source line_breaks (length u + length hdr) = ?nl"
    unfolding find_first_not_of_def d2
    using first_match_char_hit [of eol "\<lambda>c. c \<notin> set line_breaks" x xs, OF eol_all x(2)]
    by (simp add: source)
  have nl_ne: "?nl \<noteq> npos"
    using bound by (simp add: npos_def)
  have d3: "drop ?nl source = body @ rest"
    by (simp add: source)
  have nl_le: "\<not> length source < ?nl"
    by (simp add: source)
  have sub_body: "length body \<le> k \<Longrightarrow> rest = [] \<or> k = length body \<Longrightarrow>
      substr source ?nl k = Inr body" for k
    unfolding substr_def d3 using nl_le nl_ne by auto
  show ?thesis
  proof (cases "rest = []")
    case True
    with body(1) have p': "str_find source typeToken ?nl = npos"
      unfolding str_find_def d3 using nl_le by (simp add: no_marker_def)
    have "size_t_sub npos ?nl = npos - ?nl"
      using nl_bound by (simp add: size_t_sub_le npos_def)
    moreover have "length body \<le> npos - ?nl"
      using nl_bound by (simp add: npos_def)
    ultimately have stage: "substr source ?nl (size_t_sub npos ?nl) = Inr body"
      using sub_body [of "npos - ?nl"] True by simp
    show ?thesis
      apply (subst PreProcess_loop.simps)
      apply (simp only: pos_ne eolpos eol_ne begin_eq cnt ty nl nl_ne p' stage name True
               Let_def if_False if_True sum.case)
      apply simp
      done
  next
    case False
    with rest have r: "rest = typeToken @ rest'" by simp
    have p': "str_find source typeToken ?nl = ?nl + length body"
      unfolding str_find_def d3 r using nl_le body(1)
      by (simp add: no_marker_def first_match_token_append)
    have "size_t_sub (?nl + length body) ?nl = length body"
      using nl_bound by (simp add: size_t_sub_le)
    then have stage: "substr source ?nl (size_t_sub (?nl + length body) ?nl) = Inr body"
      using sub_body [of "length body"] by simp
    have target: "length (u @ typeToken @ [CHR '' ''] @ name @ eol @ body) = ?nl + length body"
      by (simp add: hdr_def)
    show ?thesis
      apply (subst PreProcess_loop.simps)
      apply (simp only: pos_ne eolpos eol_ne begin_eq cnt ty nl nl_ne p' stage name False target
               Let_def if_False if_True sum.case)
      done
  qed
qed



text \<open>
  C2. A well-formed source with two stage blocks is any text, free of the marker token,
  followed by two blocks. A block is the marker token, a space, a recognized stage name,
  one or more line-break characters, and the stage text, which holds no marker token and
  does not start with a line break. The two names stand for different stage kinds, the
  text of the second block is not empty, and the source is shorter than \<open>npos\<close>.
  For every such source the splitter returns exactly two entries, keyed by the vertex and
  the fragment kind, and the text of each entry is the text of its block.
\<close>

theorem PreProcess_two_stages:
  assumes src: "source = prefix @ typeToken @ [CHR '' ''] @ name1 @ eol1 @ text1 @
                         typeToken @ [CHR '' ''] @ name2 @ eol2 @ text2"
    and names: "ShaderTypeFromString name1 = Inr kind1" "ShaderTypeFromString name2 = Inr kind2"
      "kind1 \<noteq> kind2"
    and eols: "eol1 \<noteq> []" "set eol1 \<subseteq> set line_breaks"
      "eol2 \<noteq> []" "set eol2 \<subseteq> set line_breaks"
    and markers: "no_marker prefix" "no_marker text1" "no_marker text2"
    and starts: "no_leading_line_break text1" "no_leading_line_break text2" "text2 \<noteq> []"
    and len: "length source < npos"
  shows "PreProcess source = Inr [(kind1, text1), (kind2, text2)] \<and>
         {kind1, kind2} = {GL_VERTEX_SHADER, GL_FRAGMENT_SHADER}"
proof
  let ?u2 = "prefix @ typeToken @ [CHR '' ''] @ name1 @ eol1 @ text1"
  let ?rest1 = "typeToken @ [CHR '' ''] @ name2 @ eol2 @ text2"
  have first: "str_find source typeToken 0 = length prefix"
    using first_match_token_append [of prefix "[CHR '' ''] @ name1 @ eol1 @ text1 @ ?rest1"]
      markers(1)
    by (simp add: str_find_def src no_marker_def)
  have src1: "source = prefix @ typeToken @ [CHR '' ''] @ name1 @ eol1 @ text1 @ ?rest1"
    by (simp add: src)
  have step1: "PreProcess_loop source (length prefix) [] =
                 PreProcess_loop source (length ?u2) (AList.update kind1 text1 [])"
    using PreProcess_loop_block [OF src1 names(1) eols(1,2) markers(2) starts(1) _ len,
        of "[CHR '' ''] @ name2 @ eol2 @ text2" "[]"]
    by (simp add: typeToken_def)
  have src2: "source = ?u2 @ typeToken @ [CHR '' ''] @ name2 @ eol2 @ text2 @ []"
    by (simp add: src)
  have step2: "PreProcess_loop source (length ?u2) (AList.update kind1 text1 []) =
                 PreProcess_loop source npos
                   (AList.update kind2 text2 (AList.update kind1 text1 []))"
    using PreProcess_loop_block [OF src2 names(2) eols(3,4) markers(3) starts(2) _ len,
        of "[]" "AList.update kind1 text1 []"] starts(3)
    by simp
  have stop: "PreProcess_loop source npos acc = Inr acc" for acc
    by (subst PreProcess_loop.simps) simp
  show "PreProcess source = Inr [(kind1, text1), (kind2, text2)]"
    unfolding PreProcess_def first step1 step2 stop using names(3) by simp
  from recognized_name [OF names(1)] recognized_name [OF names(2)] names(3)
  show "{kind1, kind2} = {GL_VERTEX_SHADER, GL_FRAGMENT_SHADER}"
    by auto
qed

theorem PreProcess_two_stages_witness:
  "ShaderTypeFromString ''vertex'' = Inr GL_VERTEX_SHADER \<and>
   ShaderTypeFromString ''fragment'' = Inr GL_FRAGMENT_SHADER \<and>
   GL_VERTEX_SHADER \<noteq> GL_FRAGMENT_SHADER \<and>
   no_marker (''// flat'' @ [CHR 0x0A]) \<and>
   no_marker flat_vertex_text \<and> no_marker flat_fragment_text \<and>
   no_leading_line_break flat_vertex_text \<and> no_leading_line_break flat_fragment_text \<and>
   flat_fragment_text \<noteq> [] \<and>
   length flat_source < npos \<and>
   PreProcess flat_source =
     Inr [(GL_VERTEX_SHADER, flat_vertex_text), (GL_FRAGMENT_SHADER, flat_fragment_text)]"
proof -
  have src: "flat_source =
      (''// flat'' @ [CHR 0x0A]) @ typeToken @ [CHR '' ''] @ ''vertex'' @ [CHR 0x0A] @
      flat_vertex_text @ typeToken @ [CHR '' ''] @ ''fragment'' @ [CHR 0x0D, CHR 0x0A] @
      flat_fragment_text"
    by (simp add: flat_source_def typeToken_def)
  have names: "ShaderTypeFromString ''vertex'' = Inr GL_VERTEX_SHADER"
    "ShaderTypeFromString ''fragment'' = Inr GL_FRAGMENT_SHADER"
    "GL_VERTEX_SHADER \<noteq> GL_FRAGMENT_SHADER"
    by (simp_all add: ShaderTypeFromString_def GL_VERTEX_SHADER_def GL_FRAGMENT_SHADER_def)
  have eols: "[CHR 0x0A] \<noteq> []" "set [CHR 0x0A] \<subseteq> set line_breaks"
    "[CHR 0x0D, CHR 0x0A] \<noteq> []" "set [CHR 0x0D, CHR 0x0A] \<subseteq> set line_breaks"
    by (simp_all add: line_breaks_def)
  have markers: "no_marker (''// flat'' @ [CHR 0x0A])" "no_marker flat_vertex_text"
    "no_marker flat_fragment_text"
    by (simp_all add: no_marker_def starts_with_def typeToken_def flat_vertex_text_def
          flat_fragment_text_def)
  have starts: "no_leading_line_break flat_vertex_text"
    "no_leading_line_break flat_fragment_text" "flat_fragment_text \<noteq> []"
    by (simp_all add: no_leading_line_break_def line_breaks_def flat_vertex_text_def
          flat_fragment_text_def)
  have len: "length flat_source < npos"
    by (simp add: flat_source_def flat_vertex_text_def flat_fragment_text_def npos_def)
  from PreProcess_two_stages [OF src names eols markers starts len]
  show ?thesis
    using names markers starts len by simp
qed

subsection \<open>Compiling and linking\<close>

lemma two_cases:
  assumes "length (xs :: 'a list) \<le> 2"
  obtains "xs = []" | a where "xs = [a]" | a b where "xs = [a, b]"
  using assms
  by (cases xs; cases "tl xs"; cases "tl (tl xs)") auto

text \<open>
  What \<open>Compile\<close> does when the \<open>k\<close>-th stage is the first that fails to
  compile: it deletes the unit of that stage, writes its log and halts at the assertion
  with the shader object as it was. The units of the stages before it are not deleted and
  remain stage objects of the context, and the program is not deleted.
\<close>

lemma Compile_stage_failure:
  assumes "length shaderSources \<le> 2"
    and "k < length shaderSources"
    and "\<forall>i < k. compile_status drv (fst (shaderSources ! i)) (snd (shaderSources ! i))"
    and "\<not> compile_status drv (fst (shaderSources ! k)) (snd (shaderSources ! k))"
  shows "\<exists>w'. Compile drv indeterminate shaderSources this w =
                 Inl (AssertionFailed ''Shader compilation failure!'', this, w') \<and>
           DeleteShader (gl_next_name w + 1 + k) \<in> set (new_calls w w') \<and>
           gl_shaders w' (gl_next_name w + 1 + k) = None \<and>
           core_log w' =
             core_log w @
               [shader_info_log drv (fst (shaderSources ! k)) (snd (shaderSources ! k))] \<and>
           (\<forall>i < k. DeleteShader (gl_next_name w + 1 + i) \<notin> set (new_calls w w') \<and>
                    gl_shaders w' (gl_next_name w + 1 + i) = Some (shaderSources ! i)) \<and>
           DeleteProgram (gl_next_name w) \<notin> set (new_calls w w') \<and>
           (\<forall>name. UseProgram name \<notin> set (new_calls w w'))"
  using assms(1)
proof (cases shaderSources rule: two_cases)
  case 1
  with assms show ?thesis by simp
next
  case (2 a)
  obtain t s where a: "a = (t, s)" by (cases a)
  with 2 assms show ?thesis
    by (simp add: Compile_def gl_defs Let_def new_calls_def)
next
  case (3 a b)
  obtain t s where a: "a = (t, s)" by (cases a)
  obtain t' s' where b: "b = (t', s')" by (cases b)
  from 3 assms(2) have "k = 0 \<or> k = 1" by auto
  then show ?thesis
  proof
    assume "k = 0"
    with 3 a b assms show ?thesis
      by (simp add: Compile_def gl_defs Let_def new_calls_def)
  next
    assume "k = 1"
    with 3 a b assms show ?thesis
      by (simp add: Compile_def gl_defs Let_def new_calls_def)
  qed
qed

text \<open>
  C3 (the code does otherwise). The claim: when a stage fails to compile, \<open>Compile\<close>
  releases the failing unit, surfaces the log, aborts with no program handle, and releases
  every stage compiled earlier in the attempt. The code: with a vertex stage that compiles
  and a fragment stage that does not, the run halts at the assertion after one
  \<^verbatim>\<open>glDeleteShader\<close>, for the fragment unit 3. The vertex unit 2 is never deleted: it
  is still a stage object of the context, attached to program 1, which is not deleted
  either. The handle is left as it was and the log is written.
\<close>

theorem compile_failure_keeps_earlier_stage:
  "(case Compile picky_driver (0, 0)
           [(GL_VERTEX_SHADER, ''ok''), (GL_FRAGMENT_SHADER, ''bad'')]
           \<lparr>m_RendererID = 0, m_Name = ''Flat''\<rparr> fresh_world of
      Inl (e, this, w') \<Rightarrow>
        e = AssertionFailed ''Shader compilation failure!'' \<and>
        this = \<lparr>m_RendererID = 0, m_Name = ''Flat''\<rparr> \<and>
        gl_calls w' =
          [CreateProgram 1,
           CreateShader GL_VERTEX_SHADER 2, ShaderSource 2 ''ok'', CompileShader 2,
           AttachShader 1 2,
           CreateShader GL_FRAGMENT_SHADER 3, ShaderSource 3 ''bad'', CompileShader 3,
           DeleteShader 3] \<and>
        gl_shaders w' 2 = Some (GL_VERTEX_SHADER, ''ok'') \<and>
        gl_shaders w' 3 = None \<and>
        gl_attached w' 1 = [2] \<and>
        core_log w' = [''syntax error'']
    | Inr finished \<Rightarrow> False)"
  by (simp add: Compile_def gl_defs Let_def picky_driver_def plain_driver_def fresh_world_def)

text \<open>
  C5. For every compile attempt of at most two stages (more is a fatal precondition
  violation) in which every stage compiles and the link fails, \<open>Compile\<close> halts at
  the linking assertion with the shader object as it was, so no program handle is set.
  Before it halts it has deleted the program and the unit of every stage (the
  \<open>i\<close>-th stage has the unit created \<open>i + 1\<close> names after the program), none of
  which is a stage object of the context any more, and it has written the link log to the
  core log. No program is put in use.
\<close>

theorem Compile_link_failure:
  assumes "length shaderSources \<le> 2"
    and "\<forall>(shaderType, src) \<in> set shaderSources. compile_status drv shaderType src"
    and "\<not> link_status drv shaderSources"
  shows "\<exists>w'. Compile drv indeterminate shaderSources this w =
                 Inl (AssertionFailed ''Program linking failure!'', this, w') \<and>
           DeleteProgram (gl_next_name w) \<in> set (new_calls w w') \<and>
           (\<forall>i < length shaderSources.
              CreateShader (fst (shaderSources ! i)) (gl_next_name w + 1 + i)
                \<in> set (new_calls w w') \<and>
              DeleteShader (gl_next_name w + 1 + i) \<in> set (new_calls w w') \<and>
              gl_shaders w' (gl_next_name w + 1 + i) = None) \<and>
           core_log w' = core_log w @ [program_info_log drv shaderSources] \<and>
           (\<forall>name. UseProgram name \<notin> set (new_calls w w')) \<and>
           gl_program_in_use w' = gl_program_in_use w"
  using assms(1)
proof (cases shaderSources rule: two_cases)
  case 1
  with assms show ?thesis
    by (simp add: Compile_def gl_defs Let_def List.map_filter_def new_calls_def)
next
  case (2 a)
  obtain t s where a: "a = (t, s)" by (cases a)
  with 2 assms show ?thesis
    by (simp add: Compile_def gl_defs Let_def List.map_filter_def new_calls_def)
next
  case (3 a b)
  obtain t s where a: "a = (t, s)" by (cases a)
  obtain t' s' where b: "b = (t', s')" by (cases b)
  with 3 a assms show ?thesis
    by (simp add: Compile_def gl_defs Let_def List.map_filter_def new_calls_def All_less_Suc
          numeral_2_eq_2)
qed

theorem Compile_link_failure_witness:
  "length [(GL_VERTEX_SHADER, ''v''), (GL_FRAGMENT_SHADER, ''f'')] \<le> 2 \<and>
   compile_status failing_link_driver GL_VERTEX_SHADER ''v'' \<and>
   compile_status failing_link_driver GL_FRAGMENT_SHADER ''f'' \<and>
   \<not> link_status failing_link_driver [(GL_VERTEX_SHADER, ''v''), (GL_FRAGMENT_SHADER, ''f'')] \<and>
   (\<exists>w'. Compile failing_link_driver (0, 0)
            [(GL_VERTEX_SHADER, ''v''), (GL_FRAGMENT_SHADER, ''f'')]
            \<lparr>m_RendererID = 0, m_Name = ''Flat''\<rparr> fresh_world =
          Inl (AssertionFailed ''Program linking failure!'',
               \<lparr>m_RendererID = 0, m_Name = ''Flat''\<rparr>, w') \<and>
        DeleteProgram 1 \<in> set (gl_calls w') \<and>
        DeleteShader 2 \<in> set (gl_calls w') \<and>
        DeleteShader 3 \<in> set (gl_calls w') \<and>
        core_log w' = [''link error''])"
proof -
  let ?srcs = "[(GL_VERTEX_SHADER, ''v''), (GL_FRAGMENT_SHADER, ''f'')]"
  have a: "length ?srcs \<le> 2" by simp
  have b: "\<forall>(shaderType, src) \<in> set ?srcs. compile_status failing_link_driver shaderType src"
    by (simp add: failing_link_driver_def plain_driver_def)
  have c: "\<not> link_status failing_link_driver ?srcs"
    by (simp add: failing_link_driver_def)
  from Compile_link_failure [OF a b c, of "(0, 0)" "\<lparr>m_RendererID = 0, m_Name = ''Flat''\<rparr>"
      fresh_world]
  obtain w' where "Compile failing_link_driver (0, 0) ?srcs
            \<lparr>m_RendererID = 0, m_Name = ''Flat''\<rparr> fresh_world =
          Inl (AssertionFailed ''Program linking failure!'',
               \<lparr>m_RendererID = 0, m_Name = ''Flat''\<rparr>, w')"
    and "DeleteProgram (gl_next_name fresh_world) \<in> set (new_calls fresh_world w')"
    and "\<forall>i < length ?srcs.
              CreateShader (fst (?srcs ! i)) (gl_next_name fresh_world + 1 + i)
                \<in> set (new_calls fresh_world w') \<and>
              DeleteShader (gl_next_name fresh_world + 1 + i) \<in> set (new_calls fresh_world w') \<and>
              gl_shaders w' (gl_next_name fresh_world + 1 + i) = None"
    and "core_log w' = core_log fresh_world @ [program_info_log failing_link_driver ?srcs]"
    by blast
  then show ?thesis
    using b c
    by (auto simp: new_calls_def fresh_world_def failing_link_driver_def All_less_Suc
          numeral_2_eq_2 numeral_3_eq_3)
qed

text \<open>
  C6. For every compile attempt of at most two stages in which every stage compiles and
  the link succeeds, \<open>Compile\<close> returns with the linked program stored as the handle
  of the shader and in use in the context; its last command is the \<^verbatim>\<open>glUseProgram\<close>
  of that program. The unit of every stage has been detached from the program, no
  \<^verbatim>\<open>glDeleteShader\<close> has been issued, and every unit is still a stage object of the
  context with its kind and text. Nothing is written to the core log.
\<close>

theorem Compile_link_success:
  assumes "length shaderSources \<le> 2"
    and "\<forall>(shaderType, src) \<in> set shaderSources. compile_status drv shaderType src"
    and "link_status drv shaderSources"
  shows "\<exists>w'. Compile drv indeterminate shaderSources this w =
                 Inr (this\<lparr>m_RendererID := gl_next_name w\<rparr>, w') \<and>
           gl_program_in_use w' = gl_next_name w \<and>
           last (gl_calls w') = UseProgram (gl_next_name w) \<and>
           (\<forall>i < length shaderSources.
              CreateShader (fst (shaderSources ! i)) (gl_next_name w + 1 + i)
                \<in> set (new_calls w w') \<and>
              DetachShader (gl_next_name w) (gl_next_name w + 1 + i) \<in> set (new_calls w w') \<and>
              gl_shaders w' (gl_next_name w + 1 + i) = Some (shaderSources ! i)) \<and>
           (\<forall>name. DeleteShader name \<notin> set (new_calls w w')) \<and>
           core_log w' = core_log w"
  using assms(1)
proof (cases shaderSources rule: two_cases)
  case 1
  with assms show ?thesis
    by (simp add: Compile_def gl_defs Let_def List.map_filter_def new_calls_def)
next
  case (2 a)
  obtain t s where a: "a = (t, s)" by (cases a)
  with 2 assms show ?thesis
    by (simp add: Compile_def gl_defs Let_def List.map_filter_def new_calls_def)
next
  case (3 a b)
  obtain t s where a: "a = (t, s)" by (cases a)
  obtain t' s' where b: "b = (t', s')" by (cases b)
  with 3 a assms show ?thesis
    by (simp add: Compile_def gl_defs Let_def List.map_filter_def new_calls_def All_less_Suc
          numeral_2_eq_2)
qed

theorem Compile_link_success_witness:
  "length [(GL_VERTEX_SHADER, ''v''), (GL_FRAGMENT_SHADER, ''f'')] \<le> 2 \<and>
   compile_status plain_driver GL_VERTEX_SHADER ''v'' \<and>
   compile_status plain_driver GL_FRAGMENT_SHADER ''f'' \<and>
   link_status plain_driver [(GL_VERTEX_SHADER, ''v''), (GL_FRAGMENT_SHADER, ''f'')] \<and>
   (\<exists>w'. Compile plain_driver (0, 0)
            [(GL_VERTEX_SHADER, ''v''), (GL_FRAGMENT_SHADER, ''f'')]
            \<lparr>m_RendererID = 0, m_Name = ''Flat''\<rparr> fresh_world =
          Inr (\<lparr>m_RendererID = 1, m_Name = ''Flat''\<rparr>, w') \<and>
        gl_program_in_use w' = 1 \<and>
        DetachShader 1 2 \<in> set (gl_calls w') \<and>
        DetachShader 1 3 \<in> set (gl_calls w') \<and>
        DeleteShader 2 \<notin> set (gl_calls w') \<and>
        DeleteShader 3 \<notin> set (gl_calls w') \<and>
        gl_shaders w' 2 = Some (GL_VERTEX_SHADER, ''v'') \<and>
        gl_shaders w' 3 = Some (GL_FRAGMENT_SHADER, ''f''))"
proof -
  let ?srcs = "[(GL_VERTEX_SHADER, ''v''), (GL_FRAGMENT_SHADER, ''f'')]"
  have a: "length ?srcs \<le> 2" by simp
  have b: "\<forall>(shaderType, src) \<in> set ?srcs. compile_status plain_driver shaderType src"
    by (simp add: plain_driver_def)
  have c: "link_status plain_driver ?srcs"
    by (simp add: plain_driver_def)
  from Compile_link_success [OF a b c, of "(0, 0)" "\<lparr>m_RendererID = 0, m_Name = ''Flat''\<rparr>"
      fresh_world]
  obtain w' where "Compile plain_driver (0, 0) ?srcs
            \<lparr>m_RendererID = 0, m_Name = ''Flat''\<rparr> fresh_world =
          Inr (\<lparr>m_RendererID = 0, m_Name = ''Flat''\<rparr>
                 \<lparr>m_RendererID := gl_next_name fresh_world\<rparr>, w')"
    and "gl_program_in_use w' = gl_next_name fresh_world"
    and "\<forall>i < length ?srcs.
              CreateShader (fst (?srcs ! i)) (gl_next_name fresh_world + 1 + i)
                \<in> set (new_calls fresh_world w') \<and>
              DetachShader (gl_next_name fresh_world) (gl_next_name fresh_world + 1 + i)
                \<in> set (new_calls fresh_world w') \<and>
              gl_shaders w' (gl_next_name fresh_world + 1 + i) = Some (?srcs ! i)"
    and "\<forall>name. DeleteShader name \<notin> set (new_calls fresh_world w')"
    by blast
  then show ?thesis
    using b c
    by (auto simp: new_calls_def fresh_world_def All_less_Suc numeral_2_eq_2 numeral_3_eq_3)
qed

subsection \<open>Attribute slots of a vertex array\<close>

lemma attribute_slots_append:
  "attribute_slots (xs @ ys) = attribute_slots xs @ attribute_slots ys"
  by (induction xs rule: attribute_slots.induct) simp_all

lemma AddVertexBuffer_loop_slots:
  assumes "index + length es < 2 ^ 32"
  shows "fst (AddVertexBuffer_loop cc layout es index w) = index + length es \<and>
         attribute_slots (gl_calls (snd (AddVertexBuffer_loop cc layout es index w))) =
           attribute_slots (gl_calls w) @ [index ..< index + length es]"
  using assms
proof (induction es arbitrary: index w)
  case Nil
  then show ?case by simp
next
  case (Cons e es)
  then have small: "Suc index mod 4294967296 = Suc index" by simp
  from Cons.prems have "Suc index + length es < 2 ^ 32" by simp
  note IH = Cons.IH [OF this]
  have range: "[index ..< Suc (index + length es)] =
      index # [Suc index ..< Suc (index + length es)]"
    by (rule upt_conv_Cons) simp
  show ?case
    by (simp add: Let_def small IH glEnableVertexAttribArray_def glVertexAttribPointer_def
          issue_def attribute_slots_append range del: upt_Suc)
qed

lemma AddVertexBuffer_slots:
  assumes "Elements (Layout vb) \<noteq> []"
    and "m_VertexBufferIndex this + length (Elements (Layout vb)) < 2 ^ 32"
  shows "\<exists>this' w'. AddVertexBuffer cc vb (this, w) = Inr (this', w') \<and>
           m_VertexBufferIndex this' = m_VertexBufferIndex this + length (Elements (Layout vb)) \<and>
           attribute_slots (gl_calls w') =
             attribute_slots (gl_calls w) @
               [m_VertexBufferIndex this ..<
                  m_VertexBufferIndex this + length (Elements (Layout vb))]"
proof -
  let ?w2 = "VertexBuffer_Bind vb (glBindVertexArray (va_RendererID this) w)"
  have w2: "attribute_slots (gl_calls ?w2) = attribute_slots (gl_calls w)"
    by (simp add: VertexBuffer_Bind_def glBindVertexArray_def glBindBuffer_def issue_def
          attribute_slots_append)
  from AddVertexBuffer_loop_slots [OF assms(2), of cc "Layout vb" ?w2] assms(1) w2
  show ?thesis
    by (auto simp: AddVertexBuffer_def Let_def split: prod.splits)
qed

lemma AddVertexBuffers_append:
  "AddVertexBuffers cc (xs @ ys) st =
     (case AddVertexBuffers cc xs st of
        Inl halted \<Rightarrow> Inl halted
      | Inr st' \<Rightarrow> AddVertexBuffers cc ys st')"
  by (induction xs arbitrary: st) (auto split: sum.splits)

lemma AddVertexBuffers_slots:
  assumes "\<forall>vb \<in> set vbs. Elements (Layout vb) \<noteq> []"
    and "m_VertexBufferIndex this + element_count vbs < 2 ^ 32"
  shows "\<exists>this' w'. AddVertexBuffers cc vbs (this, w) = Inr (this', w') \<and>
           m_VertexBufferIndex this' = m_VertexBufferIndex this + element_count vbs \<and>
           attribute_slots (gl_calls w') =
             attribute_slots (gl_calls w) @
               [m_VertexBufferIndex this ..< m_VertexBufferIndex this + element_count vbs]"
  using assms
proof (induction vbs arbitrary: this w)
  case Nil
  then show ?case by (simp add: element_count_def)
next
  case (Cons vb vbs)
  let ?k = "length (Elements (Layout vb))"
  from Cons.prems have ne: "Elements (Layout vb) \<noteq> []"
    and k: "m_VertexBufferIndex this + ?k < 2 ^ 32"
    by (auto simp: element_count_def)
  from AddVertexBuffer_slots [OF ne k, of cc w]
  obtain this1 w1 where one: "AddVertexBuffer cc vb (this, w) = Inr (this1, w1)"
    and idx1: "m_VertexBufferIndex this1 = m_VertexBufferIndex this + ?k"
    and slots1: "attribute_slots (gl_calls w1) =
                   attribute_slots (gl_calls w) @
                     [m_VertexBufferIndex this ..< m_VertexBufferIndex this + ?k]"
    by blast
  from Cons.prems idx1 have rest: "\<forall>vb \<in> set vbs. Elements (Layout vb) \<noteq> []"
    "m_VertexBufferIndex this1 + element_count vbs < 2 ^ 32"
    by (auto simp: element_count_def)
  from Cons.IH [OF rest, of w1]
  obtain this2 w2 where many: "AddVertexBuffers cc vbs (this1, w1) = Inr (this2, w2)"
    and idx2: "m_VertexBufferIndex this2 = m_VertexBufferIndex this1 + element_count vbs"
    and slots2: "attribute_slots (gl_calls w2) =
                   attribute_slots (gl_calls w1) @
                     [m_VertexBufferIndex this1 ..< m_VertexBufferIndex this1 + element_count vbs]"
    by blast
  have total: "element_count (vb # vbs) = ?k + element_count vbs"
    by (simp add: element_count_def)
  have ranges: "[m_VertexBufferIndex this ..< m_VertexBufferIndex this + ?k] @
        [m_VertexBufferIndex this + ?k ..< m_VertexBufferIndex this + ?k + element_count vbs] =
        [m_VertexBufferIndex this ..< m_VertexBufferIndex this + ?k + element_count vbs]"
    using upt_add_eq_append [of "m_VertexBufferIndex this" "m_VertexBufferIndex this + ?k"
        "element_count vbs"]
    by simp
  show ?case
  proof (intro exI conjI)
    show "AddVertexBuffers cc (vb # vbs) (this, w) = Inr (this2, w2)"
      using one many by simp
    show "m_VertexBufferIndex this2 = m_VertexBufferIndex this + element_count (vb # vbs)"
      using idx1 idx2 total by simp
    show "attribute_slots (gl_calls w2) =
            attribute_slots (gl_calls w) @
              [m_VertexBufferIndex this ..<
                 m_VertexBufferIndex this + element_count (vb # vbs)]"
      unfolding slots2 slots1 idx1 total using ranges by (simp only: append_assoc add.assoc)
  qed
qed

text \<open>
  C7. Take any sequence of \<^verbatim>\<open>AddVertexBuffer\<close> calls on one vertex array, every buffer
  with a non-empty layout, and the counter never beyond \<open>2 ^ 32\<close>: the buffers
  \<open>earlier\<close> and then \<open>vb\<close>, whose layout has \<open>k\<close> elements. The call for
  \<open>vb\<close> finds the counter at its first value plus the number of elements attached
  before, makes \<open>k\<close> attribute bindings at the consecutive slots from the counter on,
  and leaves the counter \<open>k\<close> higher. The slots bound before it are the ones below the
  counter, so the new slots are fresh. An empty layout halts the call at its assertion.
\<close>

theorem AddVertexBuffer_fresh_slots:
  assumes layouts: "\<forall>b \<in> set (earlier @ [vb]). Elements (Layout b) \<noteq> []"
    and room: "m_VertexBufferIndex this + element_count (earlier @ [vb]) < 2 ^ 32"
  shows "\<exists>this1 w1 this2 w2.
           AddVertexBuffers cc earlier (this, w) = Inr (this1, w1) \<and>
           AddVertexBuffer cc vb (this1, w1) = Inr (this2, w2) \<and>
           AddVertexBuffers cc (earlier @ [vb]) (this, w) = Inr (this2, w2) \<and>
           m_VertexBufferIndex this1 = m_VertexBufferIndex this + element_count earlier \<and>
           attribute_slots (gl_calls w1) =
             attribute_slots (gl_calls w) @
               [m_VertexBufferIndex this ..< m_VertexBufferIndex this1] \<and>
           attribute_slots (gl_calls w2) =
             attribute_slots (gl_calls w1) @
               [m_VertexBufferIndex this1 ..<
                  m_VertexBufferIndex this1 + length (Elements (Layout vb))] \<and>
           m_VertexBufferIndex this2 =
             m_VertexBufferIndex this1 + length (Elements (Layout vb)) \<and>
           AddVertexBuffer cc (vb\<lparr>Layout := (Layout vb)\<lparr>Elements := []\<rparr>\<rparr>) (this, w) =
             Inl (AssertionFailed ''Vertex Buffer has not layout!'', this, w)"
proof -
  have total: "element_count (earlier @ [vb]) =
                 element_count earlier + length (Elements (Layout vb))"
    by (simp add: element_count_def)
  from layouts have l1: "\<forall>b \<in> set earlier. Elements (Layout b) \<noteq> []"
    and l2: "Elements (Layout vb) \<noteq> []" by auto
  from room total have r1: "m_VertexBufferIndex this + element_count earlier < 2 ^ 32"
    by simp
  from AddVertexBuffers_slots [OF l1 r1, of cc w]
  obtain this1 w1 where a: "AddVertexBuffers cc earlier (this, w) = Inr (this1, w1)"
    and b: "m_VertexBufferIndex this1 = m_VertexBufferIndex this + element_count earlier"
    and c: "attribute_slots (gl_calls w1) =
              attribute_slots (gl_calls w) @
                [m_VertexBufferIndex this ..< m_VertexBufferIndex this + element_count earlier]"
    by blast
  from room total b
  have r2: "m_VertexBufferIndex this1 + length (Elements (Layout vb)) < 2 ^ 32"
    by simp
  from AddVertexBuffer_slots [OF l2 r2, of cc w1]
  obtain this2 w2 where d: "AddVertexBuffer cc vb (this1, w1) = Inr (this2, w2)"
    and e: "m_VertexBufferIndex this2 =
              m_VertexBufferIndex this1 + length (Elements (Layout vb))"
    and f: "attribute_slots (gl_calls w2) =
              attribute_slots (gl_calls w1) @
                [m_VertexBufferIndex this1 ..<
                   m_VertexBufferIndex this1 + length (Elements (Layout vb))]"
    by blast
  have g: "AddVertexBuffers cc (earlier @ [vb]) (this, w) = Inr (this2, w2)"
    by (simp add: AddVertexBuffers_append a d)
  have c': "attribute_slots (gl_calls w1) =
              attribute_slots (gl_calls w) @
                [m_VertexBufferIndex this ..< m_VertexBufferIndex this1]"
    unfolding b by (rule c)
  have h: "AddVertexBuffer cc (vb\<lparr>Layout := (Layout vb)\<lparr>Elements := []\<rparr>\<rparr>) (this, w) =
             Inl (AssertionFailed ''Vertex Buffer has not layout!'', this, w)"
    by (simp add: AddVertexBuffer_def)
  from a d g b c' f e h show ?thesis by blast
qed

theorem AddVertexBuffer_fresh_slots_witness:
  "Elements (Layout position_color_buffer) \<noteq> [] \<and>
   Elements (Layout instance_buffer) \<noteq> [] \<and>
   m_VertexBufferIndex (fst (OpenGLVertexArray_new fresh_world))
     + element_count [position_color_buffer, instance_buffer] < 2 ^ 32 \<and>
   (\<exists>this1 w1 this2 w2.
      AddVertexBuffer (\<lambda>element. 1) position_color_buffer (OpenGLVertexArray_new fresh_world)
        = Inr (this1, w1) \<and>
      AddVertexBuffer (\<lambda>element. 1) instance_buffer (this1, w1) = Inr (this2, w2) \<and>
      attribute_slots (gl_calls w1) = [0, 1] \<and>
      attribute_slots (gl_calls w2) = [0, 1, 2, 3, 4] \<and>
      m_VertexBufferIndex this2 = 5)"
proof -
  obtain this0 w0 where new: "OpenGLVertexArray_new fresh_world = (this0, w0)"
    by (cases "OpenGLVertexArray_new fresh_world")
  then have start: "m_VertexBufferIndex this0 = 0" "attribute_slots (gl_calls w0) = []"
    by (auto simp: OpenGLVertexArray_new_def glCreateVertexArrays_def issue_def
          fresh_world_def)
  have count: "element_count [position_color_buffer] = 2"
    "element_count [position_color_buffer, instance_buffer] = 5"
    "length (Elements (Layout instance_buffer)) = 3"
    by (simp_all add: element_count_def position_color_buffer_def instance_buffer_def)
  have layouts: "\<forall>b \<in> set ([position_color_buffer] @ [instance_buffer]).
                   Elements (Layout b) \<noteq> []"
    by (simp add: position_color_buffer_def instance_buffer_def)
  have room: "m_VertexBufferIndex this0
                + element_count ([position_color_buffer] @ [instance_buffer]) < 2 ^ 32"
    by (simp add: start count)
  from AddVertexBuffer_fresh_slots [OF layouts room, of "\<lambda>element. 1" w0]
  obtain this1 w1 this2 w2 where
    "AddVertexBuffers (\<lambda>element. 1) [position_color_buffer] (this0, w0) = Inr (this1, w1)"
    "AddVertexBuffer (\<lambda>element. 1) instance_buffer (this1, w1) = Inr (this2, w2)"
    "m_VertexBufferIndex this1 = m_VertexBufferIndex this0 + element_count [position_color_buffer]"
    "attribute_slots (gl_calls w1) =
       attribute_slots (gl_calls w0) @ [m_VertexBufferIndex this0 ..< m_VertexBufferIndex this1]"
    "attribute_slots (gl_calls w2) =
       attribute_slots (gl_calls w1) @
         [m_VertexBufferIndex this1 ..<
            m_VertexBufferIndex this1 + length (Elements (Layout instance_buffer))]"
    "m_VertexBufferIndex this2 =
       m_VertexBufferIndex this1 + length (Elements (Layout instance_buffer))"
    by blast
  then have "AddVertexBuffer (\<lambda>element. 1) position_color_buffer (this0, w0) = Inr (this1, w1) \<and>
      AddVertexBuffer (\<lambda>element. 1) instance_buffer (this1, w1) = Inr (this2, w2) \<and>
      attribute_slots (gl_calls w1) = [0, 1] \<and>
      attribute_slots (gl_calls w2) = [0, 1, 2, 3, 4] \<and>
      m_VertexBufferIndex this2 = 5"
    by (auto simp: start count upt_rec [of _ "numeral _"] upt_rec [of 0] split: sum.splits)
  with layouts room show ?thesis
    unfolding new by (auto simp: start count)
qed

subsection \<open>Uniform upload\<close>

lemmas upload_defs =
  UploadUniformMat4_def UploadUniformMat3_def UploadUniformFloat_def UploadUniformInt_def
  UploadUniformBool_def SetMat4_def SetFloat4_def SetFloat3_def SetFloat_def SetInt_def
  glGetUniformLocation_def glUniform_def issue_def

text \<open>
  C8. Take any typed setter call on a shader whose program is the one in use, as the spec
  asks of the caller, with a name that has no slot in that program. The call returns the
  shader object unchanged and a world that differs in one thing only: the list of commands
  has one more entry, the push at slot \<open>-1\<close>, which the native context ignores. The
  core log, the uniform values and the program in use are as before, and the call has no
  way to report an error.
\<close>

theorem upload_unresolved_name_is_ignored:
  assumes "gl_program_in_use w = m_RendererID this"
    and "uniform_location drv (gl_program_in_use w) (upload_name u) = - 1"
  shows "run_upload drv u this w =
           (this, w\<lparr>gl_calls := gl_calls w @ [Uniform (- 1) (upload_value u)]\<rparr>)"
  using assms by (cases u) (auto simp: upload_defs)

theorem upload_unresolved_name_is_ignored_witness:
  "gl_program_in_use (fresh_world\<lparr>gl_program_in_use := 3\<rparr>) =
     m_RendererID \<lparr>m_RendererID = 3, m_Name = ''Flat''\<rparr> \<and>
   uniform_location plain_driver (gl_program_in_use (fresh_world\<lparr>gl_program_in_use := 3\<rparr>))
     (upload_name (CallSetInt ''u_Missing'' 7)) = - 1 \<and>
   SetInt plain_driver ''u_Missing'' 7 \<lparr>m_RendererID = 3, m_Name = ''Flat''\<rparr>
       (fresh_world\<lparr>gl_program_in_use := 3\<rparr>) =
     (\<lparr>m_RendererID = 3, m_Name = ''Flat''\<rparr>,
      fresh_world\<lparr>gl_program_in_use := 3, gl_calls := [Uniform (- 1) (Uniform1i 7)]\<rparr>)"
proof -
  let ?w = "fresh_world\<lparr>gl_program_in_use := 3\<rparr>"
  have a: "gl_program_in_use ?w = m_RendererID \<lparr>m_RendererID = 3, m_Name = ''Flat''\<rparr>"
    by simp
  have b: "uniform_location plain_driver (gl_program_in_use ?w)
     (upload_name (CallSetInt ''u_Missing'' 7)) = - 1"
    by (simp add: plain_driver_def)
  from upload_unresolved_name_is_ignored [OF a b] a b
  show ?thesis by (simp add: fresh_world_def)
qed

subsection \<open>A file that cannot be opened\<close>

text \<open>
  C9. For every path that the file system cannot open, \<open>ReadFile\<close> writes the failure
  to the core log and returns the empty string. The constructor does not halt there: the
  splitter gives the empty mapping for the empty source and \<open>Compile\<close> runs on it,
  creating a program and linking it. When the native context links the program without
  stages, the construction completes, with that program as the handle and the name taken
  from the path; the only halt left is the linking assertion of \<open>Compile\<close>. (The
  iteration over the empty mapping is empty, and the path is shorter than \<open>npos\<close>.)
\<close>

theorem unopened_file_is_not_fatal:
  assumes "fs filepath = None"
    and "iteration [] = []"
    and "length filepath < npos"
  shows "ReadFile fs filepath w =
           ([], w\<lparr>core_log := core_log w @
                     [''Could not open file '' @ [CHR 0x27] @ filepath @ [CHR 0x27]]\<rparr>) \<and>
         (\<exists>w'. OpenGLShader_from_file drv fs iteration indeterminate raw_id filepath w =
                 (if link_status drv []
                  then Inr (\<lparr>m_RendererID = gl_next_name w,
                              m_Name = name_after_separator filepath\<rparr>, w')
                  else Inl (AssertionFailed ''Program linking failure!'',
                            \<lparr>m_RendererID = raw_id, m_Name = []\<rparr>, w')) \<and>
               take 2 (new_calls w w') =
                 [CreateProgram (gl_next_name w), LinkProgram (gl_next_name w)] \<and>
               core_log w' =
                 (core_log w @ [''Could not open file '' @ [CHR 0x27] @ filepath @ [CHR 0x27]])
                 @ (if link_status drv [] then [] else [program_info_log drv []]))"
  using assms
  by (simp add: OpenGLShader_from_file_def ReadFile_def PreProcess_empty Compile_def gl_defs
        Let_def List.map_filter_def new_calls_def name_from_filepath_eq)

theorem unopened_file_is_not_fatal_witness:
  "(\<lambda>path. None :: string option) ''assets/Missing.glsl'' = None \<and>
   length ''assets/Missing.glsl'' < npos \<and>
   ReadFile (\<lambda>path. None) ''assets/Missing.glsl'' fresh_world =
     ([], fresh_world\<lparr>core_log :=
            [''Could not open file '' @ [CHR 0x27] @ ''assets/Missing.glsl'' @ [CHR 0x27]]\<rparr>) \<and>
   (\<exists>w'. OpenGLShader_from_file plain_driver (\<lambda>path. None) (\<lambda>entries. entries) (0, 0) 0
            ''assets/Missing.glsl'' fresh_world =
          Inr (\<lparr>m_RendererID = 1, m_Name = ''Missing''\<rparr>, w') \<and>
        core_log w' =
          [''Could not open file '' @ [CHR 0x27] @ ''assets/Missing.glsl'' @ [CHR 0x27]])"
proof -
  have c: "length ''assets/Missing.glsl'' < npos" by (simp add: npos_def)
  have name: "name_after_separator ''assets/Missing.glsl'' = ''Missing''"
    by (simp add: name_after_separator_def)
  from unopened_file_is_not_fatal
    [where fs = "\<lambda>path. None" and filepath = "''assets/Missing.glsl''"
       and iteration = "\<lambda>entries. entries" and w = fresh_world and drv = plain_driver
       and indeterminate = "(0, 0)" and raw_id = 0] c
  show ?thesis
    by (auto simp: name plain_driver_def fresh_world_def)
qed

end
